theory Spec2Isabelle
  imports Complex_Main "HOL-Library.Char_ord" "HOL-Library.List_Lexorder"
begin

section \<open>StatsPerform readers of floodlight (io/statsperform.py)\<close>

text \<open>
  The readers of \<^verbatim>\<open>src/floodlight/io/statsperform.py\<close> are embedded as total HOL
  functions. A Python exception is a value \<open>Inl e\<close> of the result type; a warning
  is an entry of an explicit warning list; a dict is a map or, where the insertion order
  is read back, an association list; a numpy array is a list of rows.
\<close>

subsection \<open>Python values\<close>

datatype py_error =
  IndexError | KeyError | ValueError | TypeError | OverflowError

type_synonym 'a result = "py_error + 'a"

text \<open>
  A Python float that is only stored, compared and moved: \<open>NaN\<close> is numpy's
  not-a-number, \<open>Fl r\<close> a finite value.
\<close>

datatype pyfloat = NaN | Fl rat

text \<open>Python's \<^verbatim>\<open>xs[i]\<close> for \<open>i \<ge> 0\<close>: IndexError out of range.\<close>

definition py_nth :: "'a list \<Rightarrow> nat \<Rightarrow> 'a result" where
  "py_nth xs i = (if i < length xs then Inr (xs ! i) else Inl IndexError)"

subsection \<open>Segment bounds of the open format: \<^verbatim>\<open>_create_metadata_from_open_csv_df\<close>\<close>

text \<open>
  \<^verbatim>\<open>np.diff(frame_values, prepend=frame_values[0])\<close>: the differences of
  neighbours in \<open>frame_values[0] # frame_values\<close>.
\<close>

fun np_diff :: "int list \<Rightarrow> int list" where
  "np_diff (a # b # xs) = (b - a) # np_diff (b # xs)"
| "np_diff _ = []"

definition np_diff_prepend :: "int list \<Rightarrow> int list" where
  "np_diff_prepend frame_values = np_diff (hd frame_values # frame_values)"

text \<open>\<^verbatim>\<open>np.where(d > 1)\<close>: the indices whose entry exceeds 1, ascending.\<close>

definition np_where_gt1 :: "int list \<Rightarrow> nat list" where
  "np_where_gt1 d = filter (\<lambda>i. d ! i > 1) [0..<length d]"

text \<open>
  Lines 53-62. \<open>frame_values\<close> is \<^verbatim>\<open>csv_df["frame_count"].unique()\<close>;
  \<^verbatim>\<open>frame_values[0]\<close> raises IndexError on an empty column. The dict
  \<^verbatim>\<open>periods\<close> is the association list of its items in insertion order.
\<close>

definition seg_idx_of :: "int list \<Rightarrow> nat list" where
  "seg_idx_of frame_values =
     (0 # np_where_gt1 (np_diff_prepend frame_values)) @ [length frame_values]"

definition create_periods :: "int list \<Rightarrow> (nat \<times> (int \<times> int)) list result" where
  "create_periods frame_values =
     (if frame_values = [] then Inl IndexError
      else let seg_idx = seg_idx_of frame_values
           in Inr (map (\<lambda>segment.
                     (segment,
                      (frame_values ! (seg_idx ! segment),
                       frame_values ! (seg_idx ! (segment + 1) - 1))))
                   [0..<length seg_idx - 1]))"

text \<open>
  The resolver in the words of the specification: a new segment starts at every point
  where the forward difference exceeds 1; each segment is reported by its first and last
  frame.
\<close>

fun spec_runs :: "int list \<Rightarrow> int list list" where
  "spec_runs [] = []"
| "spec_runs [x] = [[x]]"
| "spec_runs (x # y # xs) =
     (if y - x > 1 then [x] # spec_runs (y # xs)
      else (case spec_runs (y # xs) of
              [] \<Rightarrow> [[x]]
            | r # rs \<Rightarrow> (x # r) # rs))"

definition spec_segments :: "int list \<Rightarrow> (int \<times> int) list" where
  "spec_segments frame_values = map (\<lambda>r. (hd r, last r)) (spec_runs frame_values)"

text \<open>The bounds read off a list of boundary indices, as the loop of lines 59-62 does.\<close>

definition bounds_of :: "int list \<Rightarrow> nat list \<Rightarrow> (int \<times> int) list" where
  "bounds_of fv s = map (\<lambda>k. (fv ! (s ! k), fv ! (s ! (k + 1) - 1))) [0..<length s - 1]"

subsection \<open>One line of the tracking txt file: \<^verbatim>\<open>_read_tracking_data_txt_single_line\<close>\<close>

text \<open>\<^verbatim>\<open>s.split(c)\<close> for a one-character separator.\<close>

fun split_on :: "char \<Rightarrow> string \<Rightarrow> string list" where
  "split_on c [] = [[]]"
| "split_on c (x # xs) =
     (if x = c then [] # split_on c xs
      else (case split_on c xs of
              [] \<Rightarrow> [[x]]
            | w # ws \<Rightarrow> (x # w) # ws))"

text \<open>
  Python's \<^verbatim>\<open>int(s)\<close> and \<^verbatim>\<open>float(s)\<close> on text are parameters
  of the model: \<open>None\<close> is their ValueError.
\<close>

record pyconv =
  py_int :: "string \<Rightarrow> int option"
  py_float :: "string \<Rightarrow> pyfloat option"

definition conv_int :: "pyconv \<Rightarrow> string \<Rightarrow> int result" where
  "conv_int cv s = (case py_int cv s of None \<Rightarrow> Inl ValueError | Some i \<Rightarrow> Inr i)"

text \<open>\<^verbatim>\<open>map(lambda x: float(x), xs)\<close>, consumed completely by an unpacking.\<close>

fun conv_floats :: "pyconv \<Rightarrow> string list \<Rightarrow> pyfloat list result" where
  "conv_floats cv [] = Inr []"
| "conv_floats cv (s # ss) =
     (case py_float cv s of
        None \<Rightarrow> Inl ValueError
      | Some f \<Rightarrow> (case conv_floats cv ss of
                     Inl e \<Rightarrow> Inl e
                   | Inr fs \<Rightarrow> Inr (f # fs)))"

text \<open>\<^verbatim>\<open>d[k] = v\<close> on a dict kept as the list of its items in insertion order.\<close>

fun dict_set :: "'k \<Rightarrow> 'v \<Rightarrow> ('k \<times> 'v) list \<Rightarrow> ('k \<times> 'v) list" where
  "dict_set k v [] = [(k, v)]"
| "dict_set k v (p # ps) = (if fst p = k then (k, v) # ps else p # dict_set k v ps)"

text \<open>\<^verbatim>\<open>d[k]\<close>: KeyError when the key is missing.\<close>

definition dict_get :: "('k \<times> 'v) list \<Rightarrow> 'k \<Rightarrow> 'v result" where
  "dict_get d k = (case map_of d k of None \<Rightarrow> Inl KeyError | Some v \<Rightarrow> Inr v)"

record positions =
  Home :: "(string \<times> (pyfloat \<times> pyfloat)) list"
  Away :: "(string \<times> (pyfloat \<times> pyfloat)) list"
  Other :: "(string \<times> (pyfloat \<times> pyfloat)) list"

text \<open>Lines 549-572: the loop over the player chunks.\<close>

fun read_player_chunks :: "pyconv \<Rightarrow> positions \<Rightarrow> string list \<Rightarrow> positions result" where
  "read_player_chunks cv pos [] = Inr pos"
| "read_player_chunks cv pos (player_chunk # rest) =
     (if player_chunk = [] \<or> player_chunk = [CHR 0x0A] then read_player_chunks cv pos rest
      else
        let chunk_data = split_on CHR '','' player_chunk in
        (case py_nth chunk_data 2 of
           Inl e \<Rightarrow> Inl e
         | Inr jID \<Rightarrow>
             (case conv_floats cv (drop 3 chunk_data) of
                Inl e \<Rightarrow> Inl e
              | Inr [x, y] \<Rightarrow>
                  read_player_chunks cv
                    (if hd chunk_data \<in> {''0'', ''3''}
                       then pos\<lparr>Home := dict_set jID (x, y) (Home pos)\<rparr>
                     else if hd chunk_data \<in> {''1'', ''4''}
                       then pos\<lparr>Away := dict_set jID (x, y) (Away pos)\<rparr>
                     else pos\<lparr>Other := dict_set jID (x, y) (Other pos)\<rparr>)
                    rest
              | Inr _ \<Rightarrow> Inl ValueError)))"

text \<open>
  Lines 532-580. The result is \<open>(gameclock, segment, positions, ball)\<close>; the dict
  \<^verbatim>\<open>ball\<close> has at most the key \<^verbatim>\<open>"position"\<close> and is the option of
  its value. \<open>split_on\<close> never returns the empty list, so \<^verbatim>\<open>chunks[0]\<close> and
  \<^verbatim>\<open>chunk_data[0]\<close> exist.
\<close>

definition read_ball_chunk :: "pyconv \<Rightarrow> string option \<Rightarrow> (pyfloat \<times> pyfloat) option result" where
  "read_ball_chunk cv ball_chunk =
     (case ball_chunk of
        None \<Rightarrow> Inr None
      | Some bc \<Rightarrow>
          (case conv_floats cv (split_on CHR '','' (hd (split_on CHR '';'' bc))) of
             Inl e \<Rightarrow> Inl e
           | Inr [x, y, z] \<Rightarrow> Inr (Some (x, y))
           | Inr _ \<Rightarrow> Inl ValueError))"

definition read_tracking_data_txt_single_line ::
  "pyconv \<Rightarrow> string \<Rightarrow> (int \<times> int \<times> positions \<times> (pyfloat \<times> pyfloat) option) result" where
  "read_tracking_data_txt_single_line cv line =
     (let chunks = split_on CHR '':'' line;
          time_chunk = hd chunks
      in case py_nth chunks 1 of
           Inl e \<Rightarrow> Inl e
         | Inr players \<Rightarrow>
      let player_chunks = split_on CHR '';'' players;
          ball_chunk = (if length chunks > 2 then Some (chunks ! 2) else None)
      in case py_nth (split_on CHR '';'' time_chunk) 1 of
           Inl e \<Rightarrow> Inl e
         | Inr ti \<Rightarrow>
      let timeinfo = split_on CHR '','' ti
      in case conv_int cv (hd timeinfo) of
           Inl e \<Rightarrow> Inl e
         | Inr gameclock \<Rightarrow>
      (case py_nth timeinfo 1 of
           Inl e \<Rightarrow> Inl e
         | Inr seg_text \<Rightarrow>
      (case conv_int cv seg_text of
           Inl e \<Rightarrow> Inl e
         | Inr segment \<Rightarrow>
      (case read_player_chunks cv \<lparr>Home = [], Away = [], Other = []\<rparr> player_chunks of
           Inl e \<Rightarrow> Inl e
         | Inr positions \<Rightarrow>
      (case read_ball_chunk cv ball_chunk of
           Inl e \<Rightarrow> Inl e
         | Inr ball \<Rightarrow> Inr (gameclock, segment, positions, ball))))))"

subsection \<open>Periods and framerate: \<^verbatim>\<open>_read_time_information_from_tracking_data_txt\<close>\<close>

datatype warning = FramerateDiverging int int | UnknownTeamId pyfloat

record time_state =
  startframes :: "(int \<times> int) list"
  endframes :: "(int \<times> int) list"
  framerate_est :: "int option"
  last_line :: "(int \<times> int) option"
  warnings :: "warning list"

text \<open>
  \<^verbatim>\<open>last_gameclock\<close> and \<^verbatim>\<open>last_segment\<close> start as
  \<^verbatim>\<open>None\<close> and are only assigned together (lines 643-644): \<open>last_line\<close> is
  the pair \<open>(last_gameclock, last_segment)\<close>, \<open>None\<close> before the first line.
\<close>

text \<open>
  \<^verbatim>\<open>int(1000 / delta)\<close> with \<^verbatim>\<open>delta = np.absolute(...)\<close>, a numpy
  integer that is never negative. For \<open>delta = 0\<close> numpy's quotient is \<open>inf\<close> and
  \<^verbatim>\<open>int(inf)\<close> raises OverflowError. For \<open>delta > 0\<close> the double quotient of
  the two integers is truncated; it is an integer only when the exact quotient is one,
  so the result is the integer quotient.
\<close>

definition int_1000_div :: "int \<Rightarrow> int result" where
  "int_1000_div delta = (if delta = 0 then Inl OverflowError else Inr (1000 div delta))"

text \<open>Lines 620-624: the update of the period bins.\<close>

definition update_periods :: "time_state \<Rightarrow> int \<Rightarrow> int \<Rightarrow> time_state" where
  "update_periods st gameclock segment =
     (if segment \<notin> fst ` set (startframes st)
      then (let st1 = st\<lparr>startframes := dict_set segment gameclock (startframes st)\<rparr>
            in case last_line st of
                 None \<Rightarrow> st1
               | Some (last_gameclock, last_segment) \<Rightarrow>
                   st1\<lparr>endframes := dict_set last_segment last_gameclock (endframes st)\<rparr>)
      else st)"

text \<open>Lines 626-640: the estimate of the framerate.\<close>

definition estimate_framerate :: "time_state \<Rightarrow> int \<Rightarrow> int \<Rightarrow> time_state result" where
  "estimate_framerate st gameclock segment =
     (case last_line st of
        None \<Rightarrow> Inr st
      | Some (last_gameclock, last_segment) \<Rightarrow>
          let delta = \<bar>gameclock - last_gameclock\<bar> in
          (case int_1000_div delta of
             Inl e \<Rightarrow> Inl e
           | Inr q \<Rightarrow>
               (case framerate_est st of
                  None \<Rightarrow> Inr (st\<lparr>framerate_est := Some q\<rparr>)
                | Some f \<Rightarrow>
                    if f \<noteq> q \<and> last_segment = segment
                    then Inr (st\<lparr>warnings := warnings st @ [FramerateDiverging f q],
                                 framerate_est := Some q\<rparr>)
                    else Inr st)))"

text \<open>Lines 617-644: the body of the loop, for a decoded line.\<close>

definition time_line :: "time_state \<Rightarrow> int \<Rightarrow> int \<Rightarrow> time_state result" where
  "time_line st gameclock segment =
     (case estimate_framerate (update_periods st gameclock segment) gameclock segment of
        Inl e \<Rightarrow> Inl e
      | Inr st' \<Rightarrow> Inr (st'\<lparr>last_line := Some (gameclock, segment)\<rparr>))"

fun time_loop :: "pyconv \<Rightarrow> time_state \<Rightarrow> string list \<Rightarrow> time_state result" where
  "time_loop cv st [] = Inr st"
| "time_loop cv st (line # rest) =
     (case read_tracking_data_txt_single_line cv line of
        Inl e \<Rightarrow> Inl e
      | Inr (gameclock, segment, _, _) \<Rightarrow>
          (case time_line st gameclock segment of
             Inl e \<Rightarrow> Inl e
           | Inr st' \<Rightarrow> time_loop cv st' rest))"

definition time_init :: time_state where
  "time_init = \<lparr>startframes = [], endframes = [], framerate_est = None,
                last_line = None, warnings = []\<rparr>"

text \<open>Lines 650-652: the dict comprehension; a segment without end frame is a KeyError.\<close>

fun assemble_periods ::
  "(int \<times> int) list \<Rightarrow> (int \<times> int) list \<Rightarrow> (int \<times> (int \<times> int)) list result" where
  "assemble_periods [] ends = Inr []"
| "assemble_periods ((segment, start) # rest) ends =
     (case dict_get ends segment of
        Inl e \<Rightarrow> Inl e
      | Inr end \<Rightarrow>
          (case assemble_periods rest ends of
             Inl e \<Rightarrow> Inl e
           | Inr ps \<Rightarrow> Inr ((segment, (start, end)) # ps)))"

text \<open>
  The whole function, on the lines of the file. The result is
  \<open>(periods, framerate_est)\<close> with the warnings emitted. Line 647 writes
  \<^verbatim>\<open>endframes[last_segment]\<close>; for a file without lines that entry has the key
  \<^verbatim>\<open>None\<close> and is never read.
\<close>

definition read_time_information_from_tracking_data_txt ::
  "pyconv \<Rightarrow> string list \<Rightarrow> ((int \<times> (int \<times> int)) list \<times> int option \<times> warning list) result" where
  "read_time_information_from_tracking_data_txt cv lines =
     (case time_loop cv time_init lines of
        Inl e \<Rightarrow> Inl e
      | Inr st \<Rightarrow>
          let ends = (case last_line st of
                        None \<Rightarrow> endframes st
                      | Some (last_gameclock, last_segment) \<Rightarrow>
                          dict_set last_segment last_gameclock (endframes st))
          in (case assemble_periods (startframes st) ends of
                Inl e \<Rightarrow> Inl e
              | Inr periods \<Rightarrow> Inr (periods, framerate_est st, warnings st)))"


text \<open>The clock of a line, \<open>(gameclock, segment)\<close>, when the line decodes.\<close>

definition clock_of :: "pyconv \<Rightarrow> string \<Rightarrow> (int \<times> int) option" where
  "clock_of cv line =
     (case read_tracking_data_txt_single_line cv line of
        Inl e \<Rightarrow> None
      | Inr (gameclock, segment, _, _) \<Rightarrow> Some (gameclock, segment))"

text \<open>The loop of lines 615-644 on the clocks of lines that all decode.\<close>

fun time_lines :: "time_state \<Rightarrow> (int \<times> int) list \<Rightarrow> time_state result" where
  "time_lines st [] = Inr st"
| "time_lines st ((gameclock, segment) # rest) =
     (case time_line st gameclock segment of
        Inl e \<Rightarrow> Inl e
      | Inr st' \<Rightarrow> time_lines st' rest)"

subsection \<open>A converter for plain decimal literals\<close>

text \<open>
  To run the model on concrete files: \<open>dec_int\<close> reads an optional minus sign and
  decimal digits, \<open>dec_float\<close> also one decimal point. Python's \<^verbatim>\<open>int\<close> and
  \<^verbatim>\<open>float\<close> agree with them on these literals (the value of \<open>dec_float\<close> is the
  decimal read exactly) and accept further forms.
\<close>

definition is_digit :: "char \<Rightarrow> bool" where
  "is_digit c = (CHR ''0'' \<le> c \<and> c \<le> CHR ''9'')"

fun dec_nat :: "nat \<Rightarrow> string \<Rightarrow> nat option" where
  "dec_nat acc [] = Some acc"
| "dec_nat acc (c # cs) =
     (if is_digit c then dec_nat (10 * acc + (of_char c - 48)) cs else None)"

definition dec_int :: "string \<Rightarrow> int option" where
  "dec_int s =
     (case s of
        [] \<Rightarrow> None
      | c # cs \<Rightarrow>
          if c = CHR ''-''
          then (if cs = [] then None else map_option (\<lambda>n. - int n) (dec_nat 0 cs))
          else map_option int (dec_nat 0 s))"

definition dec_float :: "string \<Rightarrow> pyfloat option" where
  "dec_float s =
     (let neg = (s \<noteq> [] \<and> hd s = CHR ''-'');
          body = (if neg then tl s else s);
          sgn = (if neg then - 1 else 1)
      in case split_on CHR ''.'' body of
           [a] \<Rightarrow> (if a = [] then None
                   else map_option (\<lambda>n. Fl (sgn * of_nat n)) (dec_nat 0 a))
         | [a, b] \<Rightarrow>
             (if a = [] \<or> b = [] then None
              else (case (dec_nat 0 a, dec_nat 0 b) of
                      (Some n, Some m) \<Rightarrow>
                        Some (Fl (sgn * (of_nat n + of_nat m / 10 ^ length b)))
                    | _ \<Rightarrow> None))
         | _ \<Rightarrow> None)"

definition dec_conv :: pyconv where
  "dec_conv = \<lparr>py_int = dec_int, py_float = dec_float\<rparr>"

subsection \<open>Teamsheets\<close>

text \<open>
  The classes \<^verbatim>\<open>Teamsheet\<close>, \<^verbatim>\<open>Events\<close>, \<^verbatim>\<open>XY\<close>,
  \<^verbatim>\<open>Code\<close> and \<^verbatim>\<open>Pitch\<close> are defined outside the source files at hand;
  the specification treats them as opaque data holders. The model keeps what a reader
  puts into them: a teamsheet is the record of its columns (an absent column is
  \<open>None\<close>), an events object is its table, an XY object its array.
\<close>

datatype pyval = PStr string | PNum pyfloat

record teamsheet =
  ts_player :: "pyval list"
  ts_jID :: "pyfloat list"
  ts_pID :: "pyfloat list option"
  ts_tID :: "pyfloat list option"
  ts_xID :: "int list option"

text \<open>
  Modelled from the spec: \<^verbatim>\<open>Teamsheet.add_xIDs\<close> is not in the source files.
  The specification has the indices as a contiguous range from a fixed base, handed out
  in the order of the roster; the base is the parameter \<open>xid_base\<close>.
\<close>

definition add_xIDs :: "int \<Rightarrow> teamsheet \<Rightarrow> teamsheet" where
  "add_xIDs xid_base ts =
     ts\<lparr>ts_xID := Some (map (\<lambda>i. xid_base + int i) [0..<length (ts_jID ts)])\<rparr>"

text \<open>
  Modelled from the spec: \<^verbatim>\<open>Teamsheet.get_links("jID", "xID")\<close> is not in the
  source files; it is the jersey-to-index mapping, a dict from the \<open>jID\<close> column to
  the \<open>xID\<close> column.
\<close>

definition dict_of_items :: "('k \<times> 'v) list \<Rightarrow> ('k \<times> 'v) list" where
  "dict_of_items items = foldl (\<lambda>d kv. dict_set (fst kv) (snd kv) d) [] items"

definition get_links_jID_xID :: "teamsheet \<Rightarrow> (pyfloat \<times> int) list" where
  "get_links_jID_xID ts =
     (case ts_xID ts of
        None \<Rightarrow> []
      | Some xs \<Rightarrow> dict_of_items (zip (ts_jID ts) xs))"

text \<open>Lines 363-366 and 1049-1052: the index column is added when it is absent.\<close>

definition ensure_xIDs :: "int \<Rightarrow> teamsheet \<Rightarrow> teamsheet" where
  "ensure_xIDs xid_base ts = (if ts_xID ts = None then add_xIDs xid_base ts else ts)"

text \<open>pandas' \<^verbatim>\<open>unique()\<close>: the distinct values in the order of first appearance.\<close>

fun pd_unique :: "'a list \<Rightarrow> 'a list" where
  "pd_unique [] = []"
| "pd_unique (x # xs) = x # pd_unique (filter (\<lambda>y. y \<noteq> x) xs)"

text \<open>The rows of the open tracking csv file, as \<^verbatim>\<open>pd.read_csv\<close> returns them.\<close>

record csv_row =
  frame_count :: int
  team_id :: pyfloat
  player_id :: pyfloat
  jersey_no :: pyfloat
  pos_x :: pyfloat
  pos_y :: pyfloat
  possession :: pyfloat
  pitch_dimension_long_side :: pyfloat
  pitch_dimension_short_side :: pyfloat

text \<open>
  \<^verbatim>\<open>read_teamsheets_from_open_data_csv\<close>, lines 150-184. A column assigned to a
  data frame must have the length of the columns already there, else pandas raises
  ValueError; \<open>player\<close> and \<open>pID\<close> hold the same list, so this is the case when the
  numbers of distinct players and of distinct jerseys differ. The result is the home
  teamsheet, the away teamsheet and the warnings.
\<close>

definition open_team_rows :: "pyfloat \<Rightarrow> csv_row list \<Rightarrow> csv_row list" where
  "open_team_rows tid csv_df = filter (\<lambda>r. team_id r \<noteq> NaN \<and> team_id r = tid) csv_df"

definition open_teamsheet :: "pyfloat \<Rightarrow> csv_row list \<Rightarrow> teamsheet result" where
  "open_teamsheet tid csv_df =
     (let players = pd_unique (map player_id (open_team_rows tid csv_df));
          jerseys = pd_unique (map jersey_no (open_team_rows tid csv_df))
      in if length players \<noteq> length jerseys then Inl ValueError
         else Inr \<lparr>ts_player = map PNum players, ts_jID = jerseys, ts_pID = Some players,
                   ts_tID = Some (replicate (length players) tid), ts_xID = None\<rparr>)"

definition open_tid_warnings :: "csv_row list \<Rightarrow> warning list" where
  "open_tid_warnings csv_df =
     map UnknownTeamId
       (filter (\<lambda>t. \<not> (t \<in> {Fl 1, Fl 2} \<or> t = Fl 4 \<or> t = NaN))
          (pd_unique (map team_id csv_df)))"

definition read_teamsheets_from_open_data_csv ::
  "csv_row list \<Rightarrow> (teamsheet \<times> teamsheet \<times> warning list) result" where
  "read_teamsheets_from_open_data_csv csv_df =
     (case open_teamsheet (Fl 1) csv_df of
        Inl e \<Rightarrow> Inl e
      | Inr home \<Rightarrow>
          (case open_teamsheet (Fl 2) csv_df of
             Inl e \<Rightarrow> Inl e
           | Inr away \<Rightarrow> Inr (home, away, open_tid_warnings csv_df)))"

text \<open>
  \<^verbatim>\<open>_read_jersey_numbers_from_tracking_data_txt\<close>, lines 677-697. A Python set
  is the list of its elements without repetition; the order of that list is not
  observable, since the caller sorts it.
\<close>

fun read_jersey_numbers_loop ::
  "pyconv \<Rightarrow> string list \<times> string list \<Rightarrow> string list \<Rightarrow> (string list \<times> string list) result" where
  "read_jersey_numbers_loop cv (home_jIDs, away_jIDs) [] = Inr (home_jIDs, away_jIDs)"
| "read_jersey_numbers_loop cv (home_jIDs, away_jIDs) (package # rest) =
     (case read_tracking_data_txt_single_line cv package of
        Inl e \<Rightarrow> Inl e
      | Inr (_, _, positions, _) \<Rightarrow>
          read_jersey_numbers_loop cv
            (List.union (map fst (Home positions)) home_jIDs,
             List.union (map fst (Away positions)) away_jIDs) rest)"

definition read_jersey_numbers_from_tracking_data_txt ::
  "pyconv \<Rightarrow> string list \<Rightarrow> (string list \<times> string list) result" where
  "read_jersey_numbers_from_tracking_data_txt cv lines = read_jersey_numbers_loop cv ([], []) lines"

text \<open>Python's decimal text of a natural number, as the f-string of line 808 prints it.\<close>

fun str_of_nat :: "nat \<Rightarrow> string" where
  "str_of_nat n =
     (if n < 10 then [char_of (48 + n)]
      else str_of_nat (n div 10) @ [char_of (48 + n mod 10)])"

text \<open>\<^verbatim>\<open>[int(jID) for jID in jIDs]\<close>.\<close>

fun conv_ints :: "pyconv \<Rightarrow> string list \<Rightarrow> int list result" where
  "conv_ints cv [] = Inr []"
| "conv_ints cv (s # ss) =
     (case conv_int cv s of
        Inl e \<Rightarrow> Inl e
      | Inr i \<Rightarrow> (case conv_ints cv ss of
                     Inl e \<Rightarrow> Inl e
                   | Inr is \<Rightarrow> Inr (i # is)))"

text \<open>
  \<^verbatim>\<open>read_teamsheets_from_tracking_data_txt\<close>, lines 791-815. The jersey numbers
  are sorted as the strings they are (\<^verbatim>\<open>list.sort\<close> on \<^verbatim>\<open>str\<close>: by code
  point, a prefix first) and converted to integers afterwards.
\<close>

definition txt_teamsheet :: "pyconv \<Rightarrow> string list \<Rightarrow> teamsheet result" where
  "txt_teamsheet cv jrsy =
     (case conv_ints cv jrsy of
        Inl e \<Rightarrow> Inl e
      | Inr js \<Rightarrow>
          Inr \<lparr>ts_player = map (\<lambda>i. PStr (''player '' @ str_of_nat i)) [0..<length jrsy],
               ts_jID = map (\<lambda>j. Fl (of_int j)) js,
               ts_pID = None, ts_tID = None, ts_xID = None\<rparr>)"

definition read_teamsheets_from_tracking_data_txt ::
  "pyconv \<Rightarrow> string list \<Rightarrow> (teamsheet \<times> teamsheet) result" where
  "read_teamsheets_from_tracking_data_txt cv lines =
     (case read_jersey_numbers_from_tracking_data_txt cv lines of
        Inl e \<Rightarrow> Inl e
      | Inr (homejrsy, awayjrsy) \<Rightarrow>
          (case txt_teamsheet cv (sort homejrsy) of
             Inl e \<Rightarrow> Inl e
           | Inr home \<Rightarrow>
               (case txt_teamsheet cv (sort awayjrsy) of
                  Inl e \<Rightarrow> Inl e
                | Inr away \<Rightarrow> Inr (home, away))))"



subsection \<open>Events of the open format: \<^verbatim>\<open>read_open_event_data_csv\<close>\<close>

text \<open>
  The dict \<^verbatim>\<open>event\<close> of \<^verbatim>\<open>_read_open_event_csv_single_line\<close>. Floats
  are exact rationals here: the rounding of \<^verbatim>\<open>gameclock / 60\<close> is not modelled.
\<close>

record event =
  ev_eID :: string
  ev_gameclock :: pyfloat
  ev_frameclock :: pyfloat
  ev_tID :: string
  ev_pID :: string
  ev_outcome :: pyfloat
  ev_minute :: pyfloat
  ev_second :: pyfloat
  ev_qualifier :: "(string \<times> string) list"

definition np_floor :: "pyfloat \<Rightarrow> pyfloat" where
  "np_floor f = (case f of NaN \<Rightarrow> NaN | Fl r \<Rightarrow> Fl (of_int \<lfloor>r\<rfloor>))"

definition fl_div :: "pyfloat \<Rightarrow> rat \<Rightarrow> pyfloat" where
  "fl_div f d = (case f of NaN \<Rightarrow> NaN | Fl r \<Rightarrow> Fl (r / d))"

definition fl_mul :: "pyfloat \<Rightarrow> rat \<Rightarrow> pyfloat" where
  "fl_mul f d = (case f of NaN \<Rightarrow> NaN | Fl r \<Rightarrow> Fl (r * d))"

definition fl_sub :: "pyfloat \<Rightarrow> pyfloat \<Rightarrow> pyfloat" where
  "fl_sub f g = (case (f, g) of (Fl r, Fl s) \<Rightarrow> Fl (r - s) | _ \<Rightarrow> NaN)"

text \<open>
  Lines 84-128, on the fields \<open>attrib\<close> of the line. The result is
  \<open>(event, team, segment)\<close>. An index beyond the fields raises IndexError, a text that
  is no float ValueError, in the order of the source.
\<close>

definition read_open_event_csv_single_line ::
  "pyconv \<Rightarrow> string \<Rightarrow> (event \<times> string \<times> string) result" where
  "read_open_event_csv_single_line cv line =
     (let attrib = split_on CHR '','' line in
      if length attrib < 6 then Inl IndexError
      else case py_float cv (attrib ! 4) of
        None \<Rightarrow> Inl ValueError
      | Some gameclock \<Rightarrow>
      (case py_float cv (attrib ! 2) of
        None \<Rightarrow> Inl ValueError
      | Some frameclock \<Rightarrow>
      if length attrib < 20 then Inl IndexError
      else
        let segment = attrib ! 3;
            team = attrib ! 9;
            words = split_on CHR '' '' (attrib ! 5);
            minute = np_floor (fl_div gameclock 60);
            second = np_floor (fl_sub gameclock (fl_mul minute 60))
        in Inr (\<lparr>ev_eID = filter (\<lambda>c. c \<noteq> CHR '' '') (attrib ! 5),
                  ev_gameclock = gameclock,
                  ev_frameclock = frameclock,
                  ev_tID = team,
                  ev_pID = attrib ! 8,
                  ev_outcome = (if ''Won'' \<in> set words then Fl 1
                                else if ''Lost'' \<in> set words then Fl 0 else NaN),
                  ev_minute = minute,
                  ev_second = second,
                  ev_qualifier =
                    [(''event_id'', attrib ! 1), (''event_type_id'', attrib ! 6),
                     (''sequencenumber'', attrib ! 7), (''jersey_no'', attrib ! 10),
                     (''is_pass'', attrib ! 11), (''is_cross'', attrib ! 12),
                     (''is_corner'', attrib ! 13), (''is_free_kick'', attrib ! 14),
                     (''is_goal_kick'', attrib ! 15), (''passtypeid'', attrib ! 16),
                     (''wintypeid'', attrib ! 17), (''savetypeid'', attrib ! 18),
                     (''possessionnumber'', attrib ! 19)]\<rparr>,
                 team, segment)))"

text \<open>
  The bins \<^verbatim>\<open>events[team][segment]\<close>: a dict of dicts of tables, a table being
  the list of its rows. \<^verbatim>\<open>events[team][segment] = events[team][segment].append(event)\<close>
  raises KeyError for a team or a segment without bin.
\<close>

type_synonym 'e tables = "(string \<times> 'e list) list"

definition append_event :: "('t \<times> 'e tables) list \<Rightarrow> 't \<Rightarrow> string \<Rightarrow> 'e \<Rightarrow> ('t \<times> 'e tables) list result" where
  "append_event events team segment ev =
     (case dict_get events team of
        Inl e \<Rightarrow> Inl e
      | Inr bins \<Rightarrow>
          (case dict_get bins segment of
             Inl e \<Rightarrow> Inl e
           | Inr table \<Rightarrow> Inr (dict_set team (dict_set segment (table @ [ev]) bins) events)))"

text \<open>Lines 265-274: the insertion of one event, \<open>team\<close> being the text of the line.\<close>

definition insert_to_bin ::
  "pyconv \<Rightarrow> (pyfloat \<times> event tables) list \<Rightarrow> event \<Rightarrow> string \<Rightarrow> string
     \<Rightarrow> (pyfloat \<times> event tables) list result" where
  "insert_to_bin cv events ev team segment =
     (if team \<noteq> []
      then (case py_float cv team of
              None \<Rightarrow> Inl ValueError
            | Some t \<Rightarrow> append_event events t segment ev)
      else (case append_event events (Fl 1) segment ev of
              Inl e \<Rightarrow> Inl e
            | Inr events1 \<Rightarrow> append_event events1 (Fl 2) segment ev))"

text \<open>
  Lines 249-274: the loop over the lines. \<^verbatim>\<open>readline\<close> returns the empty text
  at the end of the file only, where the loop stops.
\<close>

fun parse_event_lines ::
  "pyconv \<Rightarrow> (pyfloat \<times> event tables) list \<Rightarrow> string list
     \<Rightarrow> (pyfloat \<times> event tables) list result" where
  "parse_event_lines cv events [] = Inr events"
| "parse_event_lines cv events (line # rest) =
     (if line = [] then Inr events
      else (case py_nth (split_on CHR '','' line) 3 of
              Inl e \<Rightarrow> Inl e
            | Inr phase \<Rightarrow>
                if phase = ''current_phase'' then parse_event_lines cv events rest
                else (case read_open_event_csv_single_line cv line of
                        Inl e \<Rightarrow> Inl e
                      | Inr (ev, team, segment) \<Rightarrow>
                          (case insert_to_bin cv events ev team segment of
                             Inl e \<Rightarrow> Inl e
                           | Inr events' \<Rightarrow> parse_event_lines cv events' rest))))"

definition open_events_init :: "(pyfloat \<times> event tables) list" where
  "open_events_init = [(Fl 1, [(''1'', []), (''2'', [])]), (Fl 2, [(''1'', []), (''2'', [])])]"

text \<open>
  Lines 233-245, 347-360, 872-885 and 1033-1046: a teamsheet that the caller did not
  give is the one derived from the file. \<open>derived\<close> is the result of the deriving
  function on the file; it is evaluated only when a teamsheet is missing.
\<close>

definition create_or_check_teamsheets ::
  "(teamsheet \<times> teamsheet) result \<Rightarrow> teamsheet option \<Rightarrow> teamsheet option
     \<Rightarrow> (teamsheet \<times> teamsheet) result" where
  "create_or_check_teamsheets derived home_teamsheet away_teamsheet =
     (case (home_teamsheet, away_teamsheet) of
        (Some h, Some a) \<Rightarrow> Inr (h, a)
      | (None, None) \<Rightarrow> derived
      | (None, Some a) \<Rightarrow> (case derived of Inl e \<Rightarrow> Inl e | Inr (h, _) \<Rightarrow> Inr (h, a))
      | (Some h, None) \<Rightarrow> (case derived of Inl e \<Rightarrow> Inl e | Inr (_, a) \<Rightarrow> Inr (h, a)))"

record open_event_data =
  oe_home_ht1 :: "event list"
  oe_home_ht2 :: "event list"
  oe_away_ht1 :: "event list"
  oe_away_ht2 :: "event list"
  oe_home_teamsheet :: teamsheet
  oe_away_teamsheet :: teamsheet

text \<open>
  \<^verbatim>\<open>read_open_event_data_csv\<close>, lines 226-298. \<open>csv_df\<close> is the file as
  \<^verbatim>\<open>pd.read_csv\<close> reads it, \<open>lines\<close> the same file line by line. Lines 283-288
  build the away objects from \<^verbatim>\<open>events[team_ids["Home"]]\<close>.
\<close>

definition events_table :: "('t \<times> 'e tables) list \<Rightarrow> 't \<Rightarrow> string \<Rightarrow> 'e list result" where
  "events_table events team segment =
     (case dict_get events team of
        Inl e \<Rightarrow> Inl e
      | Inr bins \<Rightarrow> dict_get bins segment)"

definition read_open_event_data_csv ::
  "pyconv \<Rightarrow> csv_row list \<Rightarrow> string list \<Rightarrow> teamsheet option \<Rightarrow> teamsheet option
     \<Rightarrow> open_event_data result" where
  "read_open_event_data_csv cv csv_df lines home_teamsheet away_teamsheet =
     (case create_or_check_teamsheets
             (case read_teamsheets_from_open_data_csv csv_df of
                Inl e \<Rightarrow> Inl e
              | Inr (h, a, _) \<Rightarrow> Inr (h, a))
             home_teamsheet away_teamsheet of
        Inl e \<Rightarrow> Inl e
      | Inr (home_ts, away_ts) \<Rightarrow>
          (case parse_event_lines cv open_events_init lines of
             Inl e \<Rightarrow> Inl e
           | Inr events \<Rightarrow>
               (case (events_table events (Fl 1) ''1'', events_table events (Fl 1) ''2'',
                      events_table events (Fl 1) ''1'', events_table events (Fl 1) ''2'') of
                  (Inr home_ht1, Inr home_ht2, Inr away_ht1, Inr away_ht2) \<Rightarrow>
                    Inr \<lparr>oe_home_ht1 = home_ht1, oe_home_ht2 = home_ht2,
                         oe_away_ht1 = away_ht1, oe_away_ht2 = away_ht2,
                         oe_home_teamsheet = home_ts, oe_away_teamsheet = away_ts\<rparr>
                | _ \<Rightarrow> Inl KeyError)))"






subsection \<open>Events of the xml format: \<^verbatim>\<open>read_event_data_xml\<close>\<close>

text \<open>
  The xml tree is read with \<^verbatim>\<open>lxml\<close> and \<^verbatim>\<open>get_and_convert\<close>, which are
  not in the source files; what they return is taken as given. A half of the match is
  the text \<open>IdHalf\<close> that \<^verbatim>\<open>get_and_convert(half.attrib, "IdHalf", str)\<close> returns
  and the list of its event elements. The accessors of an event element are parameters:
  \<open>xa_pID\<close> is line 905, \<open>xa_team\<close> is line 908 (the lookup of the player in
  \<^verbatim>\<open>links_pID_to_team\<close>, converted to text), \<open>xa_row\<close> the ten column values of
  lines 917-948, or the exception raised on the way.
\<close>

record ('ev, 'pid, 'row) xml_access =
  xa_pID :: "'ev \<Rightarrow> 'pid"
  xa_team :: "(string \<times> (pyfloat \<times> string) list) list \<Rightarrow> 'pid \<Rightarrow> string"
  xa_row :: "'ev \<Rightarrow> 'pid \<Rightarrow> 'row result"

text \<open>Lines 887-890. \<^verbatim>\<open>teamsheet["pID"]\<close> raises KeyError without that column.\<close>

definition links_pID_to_team ::
  "teamsheet \<Rightarrow> teamsheet \<Rightarrow> (string \<times> (pyfloat \<times> string) list) list result" where
  "links_pID_to_team home_ts away_ts =
     (case (ts_pID home_ts, ts_pID away_ts) of
        (Some hp, Some ap) \<Rightarrow>
          Inr [(''Home'', dict_of_items (map (\<lambda>p. (p, ''Home'')) hp)),
               (''Away'', dict_of_items (map (\<lambda>p. (p, ''Away'')) ap))]
      | _ \<Rightarrow> Inl KeyError)"

text \<open>
  Lines 903-948 for one event. The ten column lists of a bin grow together, so a bin is
  the list of its rows. An event for which \<open>xa_team\<close> is the text \<open>None\<close> goes to the
  bins of both teams, any other to the bin of the team named.
\<close>

fun append_to_teams ::
  "(string \<times> 'row tables) list \<Rightarrow> string list \<Rightarrow> string \<Rightarrow> 'row
     \<Rightarrow> (string \<times> 'row tables) list result" where
  "append_to_teams event_lists [] segment row = Inr event_lists"
| "append_to_teams event_lists (team # teams_assigned) segment row =
     (case append_event event_lists team segment row of
        Inl e \<Rightarrow> Inl e
      | Inr event_lists' \<Rightarrow> append_to_teams event_lists' teams_assigned segment row)"

definition xml_event ::
  "('ev, 'pid, 'row) xml_access \<Rightarrow> (string \<times> (pyfloat \<times> string) list) list
     \<Rightarrow> (string \<times> 'row tables) list \<Rightarrow> string \<Rightarrow> 'ev
     \<Rightarrow> (string \<times> 'row tables) list result" where
  "xml_event xa links event_lists segment ev =
     (let pID = xa_pID xa ev;
          team = xa_team xa links pID;
          teams_assigned = (if team = ''None'' then [''Home'', ''Away''] else [team])
      in case xa_row xa ev pID of
           Inl e \<Rightarrow> Inl e
         | Inr row \<Rightarrow> append_to_teams event_lists teams_assigned segment row)"

fun xml_events ::
  "('ev, 'pid, 'row) xml_access \<Rightarrow> (string \<times> (pyfloat \<times> string) list) list
     \<Rightarrow> (string \<times> 'row tables) list \<Rightarrow> string \<Rightarrow> 'ev list
     \<Rightarrow> (string \<times> 'row tables) list result" where
  "xml_events xa links event_lists segment [] = Inr event_lists"
| "xml_events xa links event_lists segment (ev # rest) =
     (case xml_event xa links event_lists segment ev of
        Inl e \<Rightarrow> Inl e
      | Inr event_lists' \<Rightarrow> xml_events xa links event_lists' segment rest)"

fun xml_halves ::
  "('ev, 'pid, 'row) xml_access \<Rightarrow> (string \<times> (pyfloat \<times> string) list) list
     \<Rightarrow> (string \<times> 'row tables) list \<Rightarrow> (string \<times> 'ev list) list
     \<Rightarrow> (string \<times> 'row tables) list result" where
  "xml_halves xa links event_lists [] = Inr event_lists"
| "xml_halves xa links event_lists ((period, evs) # rest) =
     (case xml_events xa links event_lists (''HT'' @ period) evs of
        Inl e \<Rightarrow> Inl e
      | Inr event_lists' \<Rightarrow> xml_halves xa links event_lists' rest)"

text \<open>Lines 866-870 and 893-896: one empty bin per team and segment.\<close>

definition xml_event_lists_init :: "(string \<times> 'ev list) list \<Rightarrow> (string \<times> 'row tables) list" where
  "xml_event_lists_init halves =
     (let segments = map (\<lambda>h. ''HT'' @ fst h) halves;
          bins = dict_of_items (map (\<lambda>s. (s, [])) segments)
      in [(''Home'', bins), (''Away'', bins)])"

record ('row, 'p) xml_event_data =
  xe_home_ht1 :: "'row list"
  xe_home_ht2 :: "'row list"
  xe_away_ht1 :: "'row list"
  xe_away_ht2 :: "'row list"
  xe_pitch :: 'p
  xe_home_teamsheet :: teamsheet
  xe_away_teamsheet :: teamsheet

text \<open>
  \<^verbatim>\<open>read_event_data_xml\<close>, lines 849-984. \<open>derived\<close> is the result of
  \<^verbatim>\<open>read_teamsheets_from_event_data_xml\<close> on the file, \<open>pitch\<close> the result of
  lines 950-958 on the attributes of the root element.
\<close>

definition read_event_data_xml ::
  "('ev, 'pid, 'row) xml_access \<Rightarrow> (teamsheet \<times> teamsheet) result \<Rightarrow> 'p result
     \<Rightarrow> (string \<times> 'ev list) list \<Rightarrow> teamsheet option \<Rightarrow> teamsheet option
     \<Rightarrow> ('row, 'p) xml_event_data result" where
  "read_event_data_xml xa derived pitch halves home_teamsheet away_teamsheet =
     (case create_or_check_teamsheets derived home_teamsheet away_teamsheet of
        Inl e \<Rightarrow> Inl e
      | Inr (home_ts, away_ts) \<Rightarrow>
          (case links_pID_to_team home_ts away_ts of
             Inl e \<Rightarrow> Inl e
           | Inr links \<Rightarrow>
               (case xml_halves xa links (xml_event_lists_init halves) halves of
                  Inl e \<Rightarrow> Inl e
                | Inr event_lists \<Rightarrow>
                    (case pitch of
                       Inl e \<Rightarrow> Inl e
                     | Inr the_pitch \<Rightarrow>
                    (case (events_table event_lists ''Home'' ''HT1'',
                           events_table event_lists ''Home'' ''HT2'',
                           events_table event_lists ''Away'' ''HT1'',
                           events_table event_lists ''Away'' ''HT2'') of
                       (Inr home_ht1, Inr home_ht2, Inr away_ht1, Inr away_ht2) \<Rightarrow>
                         Inr \<lparr>xe_home_ht1 = home_ht1, xe_home_ht2 = home_ht2,
                              xe_away_ht1 = away_ht1, xe_away_ht2 = away_ht2,
                              xe_pitch = the_pitch,
                              xe_home_teamsheet = home_ts, xe_away_teamsheet = away_ts\<rparr>
                     | _ \<Rightarrow> Inl KeyError)))))"

subsection \<open>Position arrays\<close>

text \<open>
  A two-dimensional numpy array of floats: the number of its columns and the list of
  its rows, each of that length. Its shape is \<open>(length (nd_rows a), nd_cols a)\<close>.
\<close>

record ndarray =
  nd_cols :: nat
  nd_rows :: "pyfloat list list"

text \<open>\<^verbatim>\<open>np.full([n, c], np.nan)\<close>: a negative dimension raises ValueError.\<close>

definition np_full :: "int \<Rightarrow> int \<Rightarrow> ndarray result" where
  "np_full n c =
     (if n < 0 \<or> c < 0 then Inl ValueError
      else Inr \<lparr>nd_cols = nat c, nd_rows = replicate (nat n) (replicate (nat c) NaN)\<rparr>)"

text \<open>An index into an axis of size \<open>n\<close>: negative indices count from the end.\<close>

definition py_index :: "nat \<Rightarrow> int \<Rightarrow> nat result" where
  "py_index n i =
     (if 0 \<le> i \<and> i < int n then Inr (nat i)
      else if - int n \<le> i \<and> i < 0 then Inr (nat (int n + i))
      else Inl IndexError)"

text \<open>The bounds of the slice \<^verbatim>\<open>start:end\<close> on an axis of size \<open>n\<close>.\<close>

definition py_slice_bound :: "nat \<Rightarrow> int \<Rightarrow> nat" where
  "py_slice_bound n i = (let j = (if i < 0 then i + int n else i) in nat (max 0 (min (int n) j)))"

text \<open>\<open>a[r, c] = v\<close> for indices in range.\<close>

definition nd_put :: "ndarray \<Rightarrow> nat \<Rightarrow> nat \<Rightarrow> pyfloat \<Rightarrow> ndarray" where
  "nd_put a r c v = a\<lparr>nd_rows := (nd_rows a)[r := (nd_rows a ! r)[c := v]]\<rparr>"

fun nd_put_all :: "ndarray \<Rightarrow> nat \<Rightarrow> (nat \<times> pyfloat) list \<Rightarrow> ndarray" where
  "nd_put_all a c [] = a"
| "nd_put_all a c ((r, v) # rest) = nd_put_all (nd_put a r c v) c rest"

text \<open>
  \<^verbatim>\<open>a[start:end, col] = vals\<close> for a one-dimensional \<open>vals\<close>: the values must be
  as many as the rows of the slice, or one value that is broadcast; any other number
  raises ValueError.
\<close>

definition np_assign_rows :: "ndarray \<Rightarrow> int \<Rightarrow> int \<Rightarrow> int \<Rightarrow> pyfloat list \<Rightarrow> ndarray result" where
  "np_assign_rows a start end col vals =
     (case py_index (nd_cols a) col of
        Inl e \<Rightarrow> Inl e
      | Inr c \<Rightarrow>
          let n = length (nd_rows a);
              idx = [py_slice_bound n start..<py_slice_bound n end]
          in if length vals = length idx then Inr (nd_put_all a c (zip idx vals))
             else if length vals = 1 then Inr (nd_put_all a c (map (\<lambda>r. (r, hd vals)) idx))
             else Inl ValueError)"

subsection \<open>Positions of the open format: \<^verbatim>\<open>read_open_tracking_data_csv\<close>\<close>

text \<open>\<^verbatim>\<open>_create_metadata_from_open_csv_df\<close>, lines 42-64; the pitch is its two sides.\<close>

definition create_metadata_from_open_csv_df ::
  "csv_row list \<Rightarrow> ((nat \<times> (int \<times> int)) list \<times> (pyfloat \<times> pyfloat)) result" where
  "create_metadata_from_open_csv_df csv_df =
     (case csv_df of
        [] \<Rightarrow> Inl IndexError
      | first # _ \<Rightarrow>
          (case create_periods (pd_unique (map frame_count csv_df)) of
             Inl e \<Rightarrow> Inl e
           | Inr periods \<Rightarrow>
               Inr (periods,
                    (pitch_dimension_long_side first, pitch_dimension_short_side first))))"

text \<open>Lines 343-345: here a missing team id is warned about too.\<close>

definition tracking_tid_warnings :: "csv_row list \<Rightarrow> warning list" where
  "tracking_tid_warnings dat_df =
     map UnknownTeamId
       (filter (\<lambda>t. \<not> (t \<in> {Fl 1, Fl 2} \<or> t = Fl 4)) (pd_unique (map team_id dat_df)))"

text \<open>
  \<^verbatim>\<open>int(x)\<close> on a numpy float: truncation towards zero, ValueError for
  not-a-number.
\<close>

definition int_of_pyfloat :: "pyfloat \<Rightarrow> int result" where
  "int_of_pyfloat f =
     (case f of
        NaN \<Rightarrow> Inl ValueError
      | Fl r \<Rightarrow> Inr (if 0 \<le> r then \<lfloor>r\<rfloor> else \<lceil>r\<rceil>))"

text \<open>
  Lines 418-443 for one player id of a team and one segment \<open>(start, end)\<close>, on the
  array of the team for this segment.
\<close>

definition open_player ::
  "(pyfloat \<times> int) list \<Rightarrow> csv_row list \<Rightarrow> int \<times> int \<Rightarrow> ndarray \<Rightarrow> pyfloat \<Rightarrow> ndarray result" where
  "open_player links team_df period xy p =
     (let pl_df = filter (\<lambda>r. player_id r \<noteq> NaN \<and> player_id r = p) team_df;
          appearing = filter (\<lambda>r. fst period \<le> frame_count r \<and> frame_count r \<le> snd period) pl_df
      in if appearing = [] then Inr xy
         else
           (case int_of_pyfloat (jersey_no (hd pl_df)) of
              Inl e \<Rightarrow> Inl e
            | Inr jrsy \<Rightarrow>
                (case dict_get links (Fl (of_int jrsy)) of
                   Inl e \<Rightarrow> Inl e
                 | Inr xid \<Rightarrow>
                     let x_col = (xid - 1) * 2;
                         y_col = (xid - 1) * 2 + 1;
                         start = frame_count (hd appearing) - fst period;
                         end = frame_count (last appearing) - fst period + 1
                     in (case np_assign_rows xy start end x_col (map pos_x appearing) of
                           Inl e \<Rightarrow> Inl e
                         | Inr xy' \<Rightarrow>
                             np_assign_rows xy' start end y_col (map pos_y appearing)))))"

fun open_players ::
  "(pyfloat \<times> int) list \<Rightarrow> csv_row list \<Rightarrow> int \<times> int \<Rightarrow> ndarray \<Rightarrow> pyfloat list \<Rightarrow> ndarray result" where
  "open_players links team_df period xy [] = Inr xy"
| "open_players links team_df period xy (p # rest) =
     (case open_player links team_df period xy p of
        Inl e \<Rightarrow> Inl e
      | Inr xy' \<Rightarrow> open_players links team_df period xy' rest)"

definition open_team ::
  "(pyfloat \<times> int) list \<Rightarrow> pyfloat \<Rightarrow> csv_row list \<Rightarrow> int \<times> int \<Rightarrow> ndarray \<Rightarrow> ndarray result" where
  "open_team links tid dat_df period xy =
     (let team_df = open_team_rows tid dat_df
      in open_players links team_df period xy (pd_unique (map player_id team_df)))"

text \<open>
  Lines 445-455 for one segment: both columns of the ball array are assigned from the
  column \<^verbatim>\<open>pos_x\<close> of the ball rows (line 452 reads \<^verbatim>\<open>pos_x\<close> again). The
  result is the ball array and the possession codes of the segment.
\<close>

definition ball_appearing :: "csv_row list \<Rightarrow> int \<times> int \<Rightarrow> csv_row list" where
  "ball_appearing dat_df period =
     filter (\<lambda>r. fst period \<le> frame_count r \<and> frame_count r \<le> snd period)
       (open_team_rows (Fl 4) dat_df)"

definition open_ball :: "csv_row list \<Rightarrow> int \<times> int \<Rightarrow> ndarray \<Rightarrow> (ndarray \<times> pyfloat list) result" where
  "open_ball dat_df period ball =
     (let appearing = ball_appearing dat_df period;
          n = int (length (nd_rows ball))
      in case np_assign_rows ball 0 n 0 (map pos_x appearing) of
           Inl e \<Rightarrow> Inl e
         | Inr ball1 \<Rightarrow>
             (case np_assign_rows ball1 0 n 1 (map pos_x appearing) of
                Inl e \<Rightarrow> Inl e
              | Inr ball2 \<Rightarrow> Inr (ball2, map possession appearing)))"

text \<open>
  The bins of one segment: the arrays of the home team, the away team and the ball, and
  the possession codes. Lines 375-410 allocate the arrays of all segments before the
  loop of lines 413-455 fills them segment by segment; an iteration writes to the bins
  of its own segment only.
\<close>

record segment_bins =
  sb_home :: ndarray
  sb_away :: ndarray
  sb_ball :: ndarray
  sb_possession :: "pyfloat list"

definition open_alloc :: "int \<Rightarrow> int \<Rightarrow> int \<times> int \<Rightarrow> segment_bins result" where
  "open_alloc n_home n_away period =
     (let number_of_frames = snd period - fst period + 1
      in case np_full number_of_frames (n_home * 2) of
           Inl e \<Rightarrow> Inl e
         | Inr h \<Rightarrow>
             (case np_full number_of_frames (n_away * 2) of
                Inl e \<Rightarrow> Inl e
              | Inr a \<Rightarrow>
                  (case np_full number_of_frames 2 of
                     Inl e \<Rightarrow> Inl e
                   | Inr b \<Rightarrow> Inr \<lparr>sb_home = h, sb_away = a, sb_ball = b,
                                     sb_possession = []\<rparr>)))"

definition open_segment ::
  "(pyfloat \<times> int) list \<Rightarrow> (pyfloat \<times> int) list \<Rightarrow> csv_row list \<Rightarrow> int \<times> int
     \<Rightarrow> segment_bins \<Rightarrow> segment_bins result" where
  "open_segment links_home links_away dat_df period bins =
     (case open_team links_home (Fl 1) dat_df period (sb_home bins) of
        Inl e \<Rightarrow> Inl e
      | Inr h \<Rightarrow>
          (case open_team links_away (Fl 2) dat_df period (sb_away bins) of
             Inl e \<Rightarrow> Inl e
           | Inr a \<Rightarrow>
               (case open_ball dat_df period (sb_ball bins) of
                  Inl e \<Rightarrow> Inl e
                | Inr (b, codes) \<Rightarrow>
                    Inr \<lparr>sb_home = h, sb_away = a, sb_ball = b, sb_possession = codes\<rparr>)))"

text \<open>A loop that stops at the first exception.\<close>

fun for_each :: "('a \<Rightarrow> 'b result) \<Rightarrow> 'a list \<Rightarrow> 'b list result" where
  "for_each f [] = Inr []"
| "for_each f (x # xs) =
     (case f x of
        Inl e \<Rightarrow> Inl e
      | Inr y \<Rightarrow> (case for_each f xs of Inl e \<Rightarrow> Inl e | Inr ys \<Rightarrow> Inr (y # ys)))"

record open_tracking_data =
  ot_home_ht1 :: ndarray
  ot_home_ht2 :: ndarray
  ot_away_ht1 :: ndarray
  ot_away_ht2 :: ndarray
  ot_ball_ht1 :: ndarray
  ot_ball_ht2 :: ndarray
  ot_poss_ht1 :: "pyfloat list"
  ot_poss_ht2 :: "pyfloat list"
  ot_pitch :: "pyfloat \<times> pyfloat"
  ot_home_teamsheet :: teamsheet
  ot_away_teamsheet :: teamsheet
  ot_warnings :: "warning list"

text \<open>
  \<^verbatim>\<open>read_open_tracking_data_csv\<close>, lines 335-492. The objects of the first and
  the second half are the bins of the segments 0 and 1 (KeyError without them).
\<close>

definition read_open_tracking_data_csv ::
  "int \<Rightarrow> csv_row list \<Rightarrow> teamsheet option \<Rightarrow> teamsheet option \<Rightarrow> open_tracking_data result" where
  "read_open_tracking_data_csv xid_base dat_df home_teamsheet away_teamsheet =
     (case create_or_check_teamsheets
             (case read_teamsheets_from_open_data_csv dat_df of
                Inl e \<Rightarrow> Inl e
              | Inr (h, a, _) \<Rightarrow> Inr (h, a))
             home_teamsheet away_teamsheet of
        Inl e \<Rightarrow> Inl e
      | Inr (home_ts0, away_ts0) \<Rightarrow>
          let home_ts = ensure_xIDs xid_base home_ts0;
              away_ts = ensure_xIDs xid_base away_ts0;
              links_home = get_links_jID_xID home_ts;
              links_away = get_links_jID_xID away_ts
          in (case create_metadata_from_open_csv_df dat_df of
                Inl e \<Rightarrow> Inl e
              | Inr (periods, pitch) \<Rightarrow>
                  (case for_each (\<lambda>(segment, period).
                          open_alloc (int (length links_home)) (int (length links_away)) period)
                        periods of
                     Inl e \<Rightarrow> Inl e
                   | Inr allocated \<Rightarrow>
                       (case for_each (\<lambda>((segment, period), bins).
                               open_segment links_home links_away dat_df period bins)
                             (zip periods allocated) of
                          Inl e \<Rightarrow> Inl e
                        | Inr filled \<Rightarrow>
                            let xydata = zip (map fst periods) filled
                            in (case (dict_get xydata 0, dict_get xydata 1) of
                                  (Inr ht1, Inr ht2) \<Rightarrow>
                                    Inr \<lparr>ot_home_ht1 = sb_home ht1, ot_home_ht2 = sb_home ht2,
                                         ot_away_ht1 = sb_away ht1, ot_away_ht2 = sb_away ht2,
                                         ot_ball_ht1 = sb_ball ht1, ot_ball_ht2 = sb_ball ht2,
                                         ot_poss_ht1 = sb_possession ht1,
                                         ot_poss_ht2 = sb_possession ht2,
                                         ot_pitch = pitch,
                                         ot_home_teamsheet = home_ts,
                                         ot_away_teamsheet = away_ts,
                                         ot_warnings = tracking_tid_warnings dat_df\<rparr>
                                | _ \<Rightarrow> Inl KeyError)))))"

text \<open>
  numpy's broadcast of a one-dimensional list of values to \<open>n\<close> rows, where the
  assignment is accepted: the values themselves, or the single value \<open>n\<close> times.
\<close>

definition broadcast :: "nat \<Rightarrow> 'a list \<Rightarrow> 'a list" where
  "broadcast n vals = (if length vals = n then vals else replicate n (hd vals))"

text \<open>The number of frames of a segment \<open>(start, end)\<close>, line 381.\<close>

definition frames_of :: "int \<times> int \<Rightarrow> nat" where
  "frames_of period = nat (snd period - fst period + 1)"

text \<open>
  An example file: the frames 0, 1 and 5, 6 (two segments), in each frame one home
  player (jersey 7), one away player (jersey 5) and the ball.
\<close>

definition mk_row :: "int \<Rightarrow> pyfloat \<Rightarrow> pyfloat \<Rightarrow> pyfloat \<Rightarrow> rat \<Rightarrow> rat \<Rightarrow> csv_row" where
  "mk_row f t p j x y =
     \<lparr>frame_count = f, team_id = t, player_id = p, jersey_no = j,
      pos_x = Fl x, pos_y = Fl y, possession = t,
      pitch_dimension_long_side = Fl 105, pitch_dimension_short_side = Fl 68\<rparr>"

definition example_open_rows :: "csv_row list" where
  "example_open_rows =
     [mk_row 0 (Fl 1) (Fl 70) (Fl 7) 1 2, mk_row 0 (Fl 2) (Fl 50) (Fl 5) 3 4,
      mk_row 0 (Fl 4) NaN NaN 5 6,
      mk_row 1 (Fl 1) (Fl 70) (Fl 7) 11 12, mk_row 1 (Fl 2) (Fl 50) (Fl 5) 13 14,
      mk_row 1 (Fl 4) NaN NaN 15 16,
      mk_row 5 (Fl 1) (Fl 70) (Fl 7) 21 22, mk_row 5 (Fl 2) (Fl 50) (Fl 5) 23 24,
      mk_row 5 (Fl 4) NaN NaN 25 26,
      mk_row 6 (Fl 1) (Fl 70) (Fl 7) 31 32, mk_row 6 (Fl 2) (Fl 50) (Fl 5) 33 34,
      mk_row 6 (Fl 4) NaN NaN 35 36]"

subsection \<open>Positions of the txt format: \<^verbatim>\<open>read_tracking_data_txt\<close>\<close>

text \<open>
  \<^verbatim>\<open>int(delta / 1000 * framerate_est)\<close> is computed in double precision, where the
  quotient and the product are rounded (for 1160 ms at 25 Hz the result is 28, not 29).
  It is the parameter \<open>frame_index\<close> of the model, a function of the two integers.
  \<open>exact_frame_index\<close> truncates the exact product; the double computation agrees with
  it on the values of the examples below (0 and 40 ms at 25 Hz: \<open>0.0\<close> and \<open>1.0\<close>).
\<close>

definition exact_frame_index :: "int \<Rightarrow> int \<Rightarrow> int" where
  "exact_frame_index delta framerate =
     (let p = delta * framerate in if 0 \<le> p then p div 1000 else - ((- p) div 1000))"

record txt_bins =
  tb_home :: ndarray
  tb_away :: ndarray
  tb_ball :: ndarray

text \<open>\<^verbatim>\<open>max(links.values()) + 1\<close>, lines 1058-1059: ValueError for an empty dict.\<close>

definition number_of_players :: "(pyfloat \<times> int) list \<Rightarrow> int result" where
  "number_of_players links =
     (if links = [] then Inl ValueError else Inr (Max (set (map snd links)) + 1))"

text \<open>Lines 1060-1082 for one segment; without framerate the product raises TypeError.\<close>

definition txt_alloc ::
  "(int \<Rightarrow> int \<Rightarrow> int) \<Rightarrow> int option \<Rightarrow> int \<Rightarrow> int \<Rightarrow> int \<times> int \<Rightarrow> txt_bins result" where
  "txt_alloc frame_index framerate n_home n_away period =
     (case framerate of
        None \<Rightarrow> Inl TypeError
      | Some fr \<Rightarrow>
          let number_of_frames = frame_index (snd period - fst period) fr + 1
          in case np_full number_of_frames (n_home * 2) of
               Inl e \<Rightarrow> Inl e
             | Inr h \<Rightarrow>
                 (case np_full number_of_frames (n_away * 2) of
                    Inl e \<Rightarrow> Inl e
                  | Inr a \<Rightarrow>
                      (case np_full number_of_frames 2 of
                         Inl e \<Rightarrow> Inl e
                       | Inr b \<Rightarrow> Inr \<lparr>tb_home = h, tb_away = a, tb_ball = b\<rparr>)))"

text \<open>\<^verbatim>\<open>a[r, c] = v\<close>: IndexError for an index out of range.\<close>

definition np_put_cell :: "ndarray \<Rightarrow> int \<Rightarrow> int \<Rightarrow> pyfloat \<Rightarrow> ndarray result" where
  "np_put_cell a r c v =
     (case py_index (length (nd_rows a)) r of
        Inl e \<Rightarrow> Inl e
      | Inr i \<Rightarrow>
          (case py_index (nd_cols a) c of
             Inl e \<Rightarrow> Inl e
           | Inr j \<Rightarrow> Inr (nd_put a i j v)))"

text \<open>
  \<^verbatim>\<open>a[r] = ball.get("position", np.nan)\<close> on the ball array, which has two
  columns: the pair fills the row, the scalar not-a-number is broadcast to it.
\<close>

definition np_put_ball_row :: "ndarray \<Rightarrow> int \<Rightarrow> (pyfloat \<times> pyfloat) option \<Rightarrow> ndarray result" where
  "np_put_ball_row a r ball =
     (case py_index (length (nd_rows a)) r of
        Inl e \<Rightarrow> Inl e
      | Inr i \<Rightarrow>
          Inr (a\<lparr>nd_rows := (nd_rows a)[i := (case ball of
                                               None \<Rightarrow> replicate (nd_cols a) NaN
                                             | Some (x, y) \<Rightarrow> [x, y])]\<rparr>))"

text \<open>Lines 1109-1115: the players of one team in one line.\<close>

fun txt_players ::
  "pyconv \<Rightarrow> (pyfloat \<times> int) list \<Rightarrow> int \<Rightarrow> ndarray \<Rightarrow> (string \<times> (pyfloat \<times> pyfloat)) list
     \<Rightarrow> ndarray result" where
  "txt_players cv links frame_rel xy [] = Inr xy"
| "txt_players cv links frame_rel xy ((jID, (x, y)) # rest) =
     (case conv_int cv jID of
        Inl e \<Rightarrow> Inl e
      | Inr j \<Rightarrow>
          (case dict_get links (Fl (of_int j)) of
             Inl e \<Rightarrow> Inl e
           | Inr xid \<Rightarrow>
               let x_col = (xid - 1) * 2;
                   y_col = (xid - 1) * 2 + 1
               in (case np_put_cell xy frame_rel x_col x of
                     Inl e \<Rightarrow> Inl e
                   | Inr xy1 \<Rightarrow>
                       (case np_put_cell xy1 frame_rel y_col y of
                          Inl e \<Rightarrow> Inl e
                        | Inr xy2 \<Rightarrow> txt_players cv links frame_rel xy2 rest))))"

text \<open>
  Lines 1091-1118 for one decoded line, on the bins \<^verbatim>\<open>xydata\<close> of all segments.
\<close>

definition txt_line ::
  "pyconv \<Rightarrow> (int \<Rightarrow> int \<Rightarrow> int) \<Rightarrow> int \<Rightarrow> (pyfloat \<times> int) list \<Rightarrow> (pyfloat \<times> int) list
     \<Rightarrow> (int \<times> (int \<times> int)) list \<Rightarrow> (int \<times> txt_bins) list
     \<Rightarrow> int \<times> int \<times> positions \<times> (pyfloat \<times> pyfloat) option \<Rightarrow> (int \<times> txt_bins) list result" where
  "txt_line cv frame_index fr links_home links_away periods xydata decoded =
     (case decoded of (gameclock, segment, positions, ball) \<Rightarrow>
        (case dict_get periods segment of
           Inl e \<Rightarrow> Inl e
         | Inr period \<Rightarrow>
             let frame_rel = frame_index (gameclock - fst period) fr
             in (case dict_get xydata segment of
                   Inl e \<Rightarrow> Inl e
                 | Inr bins \<Rightarrow>
                     (case txt_players cv links_home frame_rel (tb_home bins) (Home positions) of
                        Inl e \<Rightarrow> Inl e
                      | Inr h \<Rightarrow>
                          (case txt_players cv links_away frame_rel (tb_away bins) (Away positions) of
                             Inl e \<Rightarrow> Inl e
                           | Inr a \<Rightarrow>
                               (case np_put_ball_row (tb_ball bins) frame_rel ball of
                                  Inl e \<Rightarrow> Inl e
                                | Inr b \<Rightarrow>
                                    Inr (dict_set segment
                                           \<lparr>tb_home = h, tb_away = a, tb_ball = b\<rparr> xydata)))))))"

fun txt_lines ::
  "pyconv \<Rightarrow> (int \<Rightarrow> int \<Rightarrow> int) \<Rightarrow> int \<Rightarrow> (pyfloat \<times> int) list \<Rightarrow> (pyfloat \<times> int) list
     \<Rightarrow> (int \<times> (int \<times> int)) list \<Rightarrow> (int \<times> txt_bins) list \<Rightarrow> string list
     \<Rightarrow> (int \<times> txt_bins) list result" where
  "txt_lines cv frame_index fr links_home links_away periods xydata [] = Inr xydata"
| "txt_lines cv frame_index fr links_home links_away periods xydata (package # rest) =
     (case read_tracking_data_txt_single_line cv package of
        Inl e \<Rightarrow> Inl e
      | Inr decoded \<Rightarrow>
          (case txt_line cv frame_index fr links_home links_away periods xydata decoded of
             Inl e \<Rightarrow> Inl e
           | Inr xydata' \<Rightarrow>
               txt_lines cv frame_index fr links_home links_away periods xydata' rest))"

record txt_tracking_data =
  tt_home_ht1 :: ndarray
  tt_home_ht2 :: ndarray
  tt_away_ht1 :: ndarray
  tt_away_ht2 :: ndarray
  tt_ball_ht1 :: ndarray
  tt_ball_ht2 :: ndarray
  tt_framerate :: "int option"
  tt_home_teamsheet :: teamsheet
  tt_away_teamsheet :: teamsheet
  tt_warnings :: "warning list"

text \<open>
  \<^verbatim>\<open>read_tracking_data_txt\<close>, lines 1027-1139, on the lines of the file. The
  objects of the first and the second half are the bins of the segments 1 and 2
  (KeyError without them). In the loop the framerate is an integer: with lines to read
  there was a segment, and its allocation has raised TypeError otherwise.
\<close>

definition read_tracking_data_txt ::
  "pyconv \<Rightarrow> (int \<Rightarrow> int \<Rightarrow> int) \<Rightarrow> int \<Rightarrow> string list \<Rightarrow> teamsheet option \<Rightarrow> teamsheet option
     \<Rightarrow> txt_tracking_data result" where
  "read_tracking_data_txt cv frame_index xid_base lines home_teamsheet away_teamsheet =
     (case read_time_information_from_tracking_data_txt cv lines of
        Inl e \<Rightarrow> Inl e
      | Inr (periods, framerate, ws) \<Rightarrow>
     (case create_or_check_teamsheets (read_teamsheets_from_tracking_data_txt cv lines)
             home_teamsheet away_teamsheet of
        Inl e \<Rightarrow> Inl e
      | Inr (home_ts0, away_ts0) \<Rightarrow>
          let home_ts = ensure_xIDs xid_base home_ts0;
              away_ts = ensure_xIDs xid_base away_ts0;
              links_home = get_links_jID_xID home_ts;
              links_away = get_links_jID_xID away_ts
          in
     (case number_of_players links_home of
        Inl e \<Rightarrow> Inl e
      | Inr number_of_home_players \<Rightarrow>
     (case number_of_players links_away of
        Inl e \<Rightarrow> Inl e
      | Inr number_of_away_players \<Rightarrow>
     (case for_each (\<lambda>(segment, period).
              txt_alloc frame_index framerate number_of_home_players number_of_away_players period)
            periods of
        Inl e \<Rightarrow> Inl e
      | Inr allocated \<Rightarrow>
     (case txt_lines cv frame_index (case framerate of None \<Rightarrow> 0 | Some fr \<Rightarrow> fr)
             links_home links_away periods (zip (map fst periods) allocated) lines of
        Inl e \<Rightarrow> Inl e
      | Inr xydata \<Rightarrow>
          (case (dict_get xydata 1, dict_get xydata 2) of
             (Inr ht1, Inr ht2) \<Rightarrow>
               Inr \<lparr>tt_home_ht1 = tb_home ht1, tt_home_ht2 = tb_home ht2,
                    tt_away_ht1 = tb_away ht1, tt_away_ht2 = tb_away ht2,
                    tt_ball_ht1 = tb_ball ht1, tt_ball_ht2 = tb_ball ht2,
                    tt_framerate = framerate,
                    tt_home_teamsheet = home_ts, tt_away_teamsheet = away_ts,
                    tt_warnings = ws\<rparr>
           | _ \<Rightarrow> Inl KeyError)))))))"

text \<open>
  An example file: two lines 40 ms apart in each of the segments 1 and 2, without ball
  chunk; the home jersey 7 and the away jersey 9 are in every line, the home jersey 8
  from the second line on.
\<close>

definition example_txt_lines :: "string list" where
  "example_txt_lines =
     [''100;0,1,0:0,a,7,1.0,2.0;1,c,9,5.0,6.0;'',
      ''140;40,1,0:0,a,7,1.5,2.5;0,b,8,3.0,4.0;1,c,9,5.5,6.5;'',
      ''200;0,2,0:0,a,7,7.0,8.0;0,b,8,3.5,4.5;1,c,9,9.0,9.5;'',
      ''240;40,2,0:0,a,7,7.5,8.5;0,b,8,4.0,5.0;1,c,9,9.5,9.0;'']"







section \<open>Verified properties\<close>

subsection \<open>Segment bounds from jumps in the frame sequence\<close>

lemma where_Cons:
  "np_where_gt1 (a # d) = (if a > 1 then [0] else []) @ map Suc (np_where_gt1 d)"
proof -
  have "[0..<length (a # d)] = 0 # map Suc [0..<length d]"
    by (simp add: upt_conv_Cons map_Suc_upt del: upt_Suc)
  then show ?thesis
    by (simp add: np_where_gt1_def filter_map comp_def)
qed

lemma seg_idx_single: "seg_idx_of [x] = [0, 1]"
  by (simp add: seg_idx_of_def np_diff_prepend_def where_Cons np_where_gt1_def)

lemma seg_idx_Cons2:
  "seg_idx_of (x # y # ys) =
     0 # (if y - x > 1 then [1] else []) @ map Suc (tl (seg_idx_of (y # ys)))"
  by (simp add: seg_idx_of_def np_diff_prepend_def where_Cons)

lemma seg_idx_shape:
  "fv \<noteq> [] \<Longrightarrow> \<exists>b t. seg_idx_of fv = 0 # b # t \<and> (\<forall>i \<in> set (b # t). 1 \<le> i)"
proof -
  assume "fv \<noteq> []"
  then obtain x xs where fv: "fv = x # xs" by (cases fv) auto
  have "np_diff_prepend fv = 0 # np_diff fv"
    unfolding fv by (simp add: np_diff_prepend_def)
  then have "seg_idx_of fv = 0 # map Suc (np_where_gt1 (np_diff fv)) @ [length fv]"
    by (simp add: seg_idx_of_def where_Cons)
  then show ?thesis
    using fv by (cases "np_where_gt1 (np_diff fv)") auto
qed

lemma bounds_of_Cons2:
  "bounds_of fv (a # b # s) = (fv ! a, fv ! (b - 1)) # bounds_of fv (b # s)"
proof -
  have "[0..<length (a # b # s) - 1] = 0 # map Suc [0..<length (b # s) - 1]"
    by (simp add: upt_conv_Cons map_Suc_upt del: upt_Suc)
  then show ?thesis
    by (simp add: bounds_of_def comp_def del: upt_Suc)
qed

lemma bounds_of_single: "bounds_of fv [a] = []"
  by (simp add: bounds_of_def)

lemma bounds_of_shift:
  "\<forall>i \<in> set s. 1 \<le> i \<Longrightarrow> bounds_of (x # fv) (map Suc (a # s)) = bounds_of fv (a # s)"
proof (induction s arbitrary: a)
  case Nil
  then show ?case by (simp add: bounds_of_single)
next
  case (Cons b s)
  then have "bounds_of (x # fv) (map Suc (b # s)) = bounds_of fv (b # s)" by simp
  moreover have "1 \<le> b" using Cons.prems by simp
  ultimately show ?case by (simp add: bounds_of_Cons2)
qed

lemma spec_runs_nonempty: "xs \<noteq> [] \<Longrightarrow> spec_runs xs \<noteq> []"
  by (induction xs rule: spec_runs.induct) (auto split: list.splits)

lemma spec_runs_no_Nil: "r \<in> set (spec_runs xs) \<Longrightarrow> r \<noteq> []"
  by (induction xs arbitrary: r rule: spec_runs.induct) (auto split: list.splits if_splits)

lemma bounds_eq_spec:
  "fv \<noteq> [] \<Longrightarrow> bounds_of fv (seg_idx_of fv) = spec_segments fv"
proof (induction fv rule: spec_runs.induct)
  case 1
  then show ?case by simp
next
  case (2 x)
  show ?case by (simp add: seg_idx_single bounds_of_Cons2 bounds_of_single spec_segments_def)
next
  case (3 x y xs)
  let ?L = "y # xs"
  obtain b t where sh: "seg_idx_of ?L = 0 # b # t" and ge: "\<forall>i \<in> set (b # t). 1 \<le> i"
    using seg_idx_shape [of ?L] by auto
  have IH: "bounds_of ?L (0 # b # t) = spec_segments ?L"
    using "3.IH" sh by (cases "y - x > 1") simp_all
  show ?case
  proof (cases "y - x > 1")
    case True
    have "seg_idx_of (x # ?L) = 0 # 1 # map Suc (b # t)"
      using True sh by (simp add: seg_idx_Cons2)
    then have "bounds_of (x # ?L) (seg_idx_of (x # ?L)) = (x, x) # bounds_of (x # ?L) (map Suc (0 # b # t))"
      by (simp add: bounds_of_Cons2)
    also have "bounds_of (x # ?L) (map Suc (0 # b # t)) = bounds_of ?L (0 # b # t)"
      using ge by (intro bounds_of_shift) simp
    finally show ?thesis
      using True IH by (simp add: spec_segments_def)
  next
    case False
    have "seg_idx_of (x # ?L) = 0 # map Suc (b # t)"
      using False sh by (simp add: seg_idx_Cons2)
    then have "bounds_of (x # ?L) (seg_idx_of (x # ?L)) =
        (x, ?L ! (b - 1)) # bounds_of (x # ?L) (map Suc (b # t))"
      using ge by (simp add: bounds_of_Cons2)
    also have "bounds_of (x # ?L) (map Suc (b # t)) = bounds_of ?L (b # t)"
      using ge by (intro bounds_of_shift) simp
    finally have A: "bounds_of (x # ?L) (seg_idx_of (x # ?L)) =
        (x, ?L ! (b - 1)) # bounds_of ?L (b # t)" .
    have B: "spec_segments ?L = (y, ?L ! (b - 1)) # bounds_of ?L (b # t)"
      using IH by (simp add: bounds_of_Cons2)
    obtain r rs where R: "spec_runs ?L = r # rs"
      using spec_runs_nonempty [of ?L] by (cases "spec_runs ?L") auto
    have rne: "r \<noteq> []" using spec_runs_no_Nil [of r ?L] R by simp
    have C: "spec_segments (x # ?L) = (x, last r) # map (\<lambda>r. (hd r, last r)) rs"
      using False R rne by (simp add: spec_segments_def)
    have "spec_segments ?L = (hd r, last r) # map (\<lambda>r. (hd r, last r)) rs"
      using R by (simp add: spec_segments_def)
    with B have "?L ! (b - 1) = last r" and "bounds_of ?L (b # t) = map (\<lambda>r. (hd r, last r)) rs"
      by simp_all
    with A C show ?thesis by simp
  qed
qed

lemma create_periods_bounds:
  "fv \<noteq> [] \<Longrightarrow> create_periods fv =
     Inr (zip [0..<length (bounds_of fv (seg_idx_of fv))] (bounds_of fv (seg_idx_of fv)))"
  by (simp add: create_periods_def bounds_of_def Let_def zip_map2 zip_same_conv_map)


text \<open>
  Claim C6. The segment resolver of the open format starts a new segment at every point
  where the forward difference of the frame sequence exceeds 1 and reports each segment
  by its inclusive first and last frame: on a non-empty sequence it returns the segments
  of the specification under the keys 0, 1, ...; for the frames 100, 101, 102, 205, 206
  it returns exactly (100, 102) and (205, 206).
\<close>

theorem segments_at_frame_jumps:
  "(frame_values \<noteq> [] \<longrightarrow>
      create_periods frame_values =
        Inr (zip [0..<length (spec_segments frame_values)] (spec_segments frame_values)))
   \<and> create_periods [100, 101, 102, 205, 206] = Inr [(0, (100, 102)), (1, (205, 206))]"
proof -
  have "create_periods [100, 101, 102, 205, 206] = Inr [(0, (100, 102)), (1, (205, 206))]"
    by (simp add: create_periods_bounds bounds_eq_spec spec_segments_def)
  then show ?thesis
    by (simp add: create_periods_bounds bounds_eq_spec)
qed

theorem segments_at_frame_jumps_witness:
  "[7, 8, 10] \<noteq> ([] :: int list) \<and> create_periods [7, 8, 10] = Inr [(0, (7, 8)), (1, (10, 10))]"
  using segments_at_frame_jumps [of "[7, 8, 10]"] by (simp add: spec_segments_def)

subsection \<open>Framerate estimation in the tracking txt file\<close>

lemma time_loop_decoded:
  "map (clock_of cv) lines = map Some ds \<Longrightarrow> time_loop cv st lines = time_lines st ds"
proof (induction lines arbitrary: st ds)
  case Nil
  then show ?case by simp
next
  case (Cons l ls)
  then obtain d ds' where ds: "ds = d # ds'" and d: "clock_of cv l = Some d"
    and rest: "map (clock_of cv) ls = map Some ds'"
    by (cases ds) auto
  obtain g s where gs: "d = (g, s)" by (cases d)
  from d gs obtain p b where "read_tracking_data_txt_single_line cv l = Inr (g, s, p, b)"
    by (auto simp: clock_of_def split: sum.splits)
  then show ?case
    using Cons.IH [OF rest] ds gs by (simp split: sum.splits)
qed

lemma time_loop_append:
  "time_loop cv st (xs @ ys) =
     (case time_loop cv st xs of Inl e \<Rightarrow> Inl e | Inr st' \<Rightarrow> time_loop cv st' ys)"
  by (induction xs arbitrary: st) (auto split: sum.splits prod.splits)

lemma last_line_update_periods [simp]:
  "last_line (update_periods st g s) = last_line st"
  by (simp add: update_periods_def Let_def split: option.splits prod.splits)

lemma framerate_update_periods [simp]:
  "framerate_est (update_periods st g s) = framerate_est st"
  by (simp add: update_periods_def Let_def split: option.splits prod.splits)

lemma warnings_update_periods [simp]:
  "warnings (update_periods st g s) = warnings st"
  by (simp add: update_periods_def Let_def split: option.splits prod.splits)

lemma time_line_last: "time_line st g s = Inr st' \<Longrightarrow> last_line st' = Some (g, s)"
  by (auto simp: time_line_def split: sum.splits)

lemma time_line_equal_clock:
  "last_line st = Some (g, s0) \<Longrightarrow> time_line st g s = Inl OverflowError"
  by (simp add: time_line_def estimate_framerate_def int_1000_div_def)

lemma time_line_distinct_clock:
  "last_line st = Some (g0, s0) \<Longrightarrow> g \<noteq> g0 \<Longrightarrow>
     \<exists>st'. time_line st g s = Inr st' \<and> framerate_est st' \<noteq> None"
  by (auto simp: time_line_def estimate_framerate_def int_1000_div_def Let_def
           split: option.splits)

lemma time_line_first:
  "last_line st = None \<Longrightarrow> \<exists>st'. time_line st g s = Inr st'"
  by (simp add: time_line_def estimate_framerate_def)

lemma time_loop_two_equal:
  assumes "clock_of cv l1 = Some (g, s1)" and "clock_of cv l2 = Some (g, s2)"
  shows "\<exists>e. time_loop cv st (l1 # l2 # post) = Inl e"
proof -
  from assms obtain p1 b1 p2 b2 where
    d1: "read_tracking_data_txt_single_line cv l1 = Inr (g, s1, p1, b1)" and
    d2: "read_tracking_data_txt_single_line cv l2 = Inr (g, s2, p2, b2)"
    by (auto simp: clock_of_def split: sum.splits)
  show ?thesis
  proof (cases "time_line st g s1")
    case (Inl e)
    then show ?thesis using d1 by simp
  next
    case (Inr st')
    then have "time_line st' g s2 = Inl OverflowError"
      using time_line_last time_line_equal_clock by blast
    then show ?thesis using d1 d2 Inr by simp
  qed
qed

lemma time_loop_equal_fails:
  assumes "Suc i < length lines"
    and "clock_of cv (lines ! i) = Some (g, s1)"
    and "clock_of cv (lines ! Suc i) = Some (g, s2)"
  shows "\<exists>e. time_loop cv st lines = Inl e"
proof -
  have "lines = take i lines @ lines ! i # lines ! Suc i # drop (Suc (Suc i)) lines"
    using assms(1) by (metis Cons_nth_drop_Suc Suc_lessD append_take_drop_id)
  then obtain pre post where L: "lines = pre @ lines ! i # lines ! Suc i # post" by blast
  show ?thesis
  proof (cases "time_loop cv st pre")
    case (Inl e)
    then show ?thesis by (subst L) (simp add: time_loop_append)
  next
    case (Inr st')
    from time_loop_two_equal [OF assms(2,3), of st' post]
    obtain e where "time_loop cv st' (lines ! i # lines ! Suc i # post) = Inl e" by blast
    then show ?thesis using Inr by (subst L) (simp add: time_loop_append)
  qed
qed

lemma time_lines_distinct:
  assumes "\<forall>i. Suc i < length (d0 # ds) \<longrightarrow> fst ((d0 # ds) ! Suc i) \<noteq> fst ((d0 # ds) ! i)"
    and "last_line st = Some d0"
  shows "\<exists>st'. time_lines st ds = Inr st' \<and> (ds \<noteq> [] \<longrightarrow> framerate_est st' \<noteq> None)
            \<and> (framerate_est st \<noteq> None \<longrightarrow> framerate_est st' \<noteq> None)"
  using assms
proof (induction ds arbitrary: st d0)
  case Nil
  then show ?case by simp
next
  case (Cons d ds)
  obtain g s where d: "d = (g, s)" by (cases d)
  obtain g0 s0 where d0: "d0 = (g0, s0)" by (cases d0)
  have ne: "g \<noteq> g0" using Cons.prems(1) d d0 by auto
  then obtain st1 where st1: "time_line st g s = Inr st1" "framerate_est st1 \<noteq> None"
    using time_line_distinct_clock [of st g0 s0 g s] Cons.prems(2) d0 by auto
  have ll: "last_line st1 = Some d" using time_line_last [OF st1(1)] d by simp
  have "\<forall>i. Suc i < length (d # ds) \<longrightarrow> fst ((d # ds) ! Suc i) \<noteq> fst ((d # ds) ! i)"
  proof (intro allI impI)
    fix i assume "Suc i < length (d # ds)"
    then show "fst ((d # ds) ! Suc i) \<noteq> fst ((d # ds) ! i)"
      using Cons.prems(1) [rule_format, of "Suc i"] by simp
  qed
  from Cons.IH [OF this ll] obtain st' where
    "time_lines st1 ds = Inr st'" "framerate_est st1 \<noteq> None \<longrightarrow> framerate_est st' \<noteq> None"
    by blast
  then show ?case using st1 d by auto
qed




lemma fst_set_dict_set [simp]: "fst ` set (dict_set k v d) = insert k (fst ` set d)"
  by (induction d) auto





lemma time_lines_error: "time_lines st ds = Inl e \<Longrightarrow> e = OverflowError"
proof (induction ds arbitrary: st)
  case Nil
  then show ?case by simp
next
  case (Cons d ds)
  obtain g s where d: "d = (g, s)" by (cases d)
  show ?case
  proof (cases "time_line st g s")
    case (Inl e')
    then have "e' = OverflowError"
      by (auto simp: time_line_def estimate_framerate_def int_1000_div_def Let_def
               split: sum.splits option.splits if_splits prod.splits)
    then show ?thesis using Cons.prems Inl d by simp
  next
    case (Inr st')
    then show ?thesis using Cons d by simp
  qed
qed



text \<open>
  Claim C10. The division \<open>1000 / delta\<close> of the framerate estimate is unguarded: a file
  with two consecutive lines of equal gameclock makes the function fail (with the
  OverflowError of the division when every line decodes), and when every line decodes
  and consecutive gameclocks are distinct the loop over the lines does not fail and,
  from the second line on, holds an estimate.
\<close>

theorem zero_delta_fails:
  "(Suc i < length lines \<and> clock_of cv (lines ! i) = Some (g, s1)
      \<and> clock_of cv (lines ! Suc i) = Some (g, s2)
      \<longrightarrow> (\<exists>e. read_time_information_from_tracking_data_txt cv lines = Inl e))
   \<and> (map (clock_of cv) lines = map Some ds
      \<and> (\<exists>i. Suc i < length ds \<and> fst (ds ! Suc i) = fst (ds ! i))
      \<longrightarrow> read_time_information_from_tracking_data_txt cv lines = Inl OverflowError)
   \<and> (map (clock_of cv) lines = map Some ds
      \<and> (\<forall>i. Suc i < length ds \<longrightarrow> fst (ds ! Suc i) \<noteq> fst (ds ! i))
      \<longrightarrow> (\<exists>st. time_loop cv time_init lines = Inr st
             \<and> (2 \<le> length ds \<longrightarrow> framerate_est st \<noteq> None)))"
proof (intro conjI impI)
  assume "Suc i < length lines \<and> clock_of cv (lines ! i) = Some (g, s1)
      \<and> clock_of cv (lines ! Suc i) = Some (g, s2)"
  then obtain e where "time_loop cv time_init lines = Inl e"
    using time_loop_equal_fails [of i lines cv g s1 s2 time_init] by blast
  then show "\<exists>e. read_time_information_from_tracking_data_txt cv lines = Inl e"
    by (simp add: read_time_information_from_tracking_data_txt_def)
next
  assume a: "map (clock_of cv) lines = map Some ds
      \<and> (\<exists>i. Suc i < length ds \<and> fst (ds ! Suc i) = fst (ds ! i))"
  then obtain i where i: "Suc i < length ds" "fst (ds ! Suc i) = fst (ds ! i)" by blast
  have len: "length lines = length ds" using a by (metis length_map)
  have "clock_of cv (lines ! i) = Some (ds ! i)" "clock_of cv (lines ! Suc i) = Some (ds ! Suc i)"
    using a i len by (metis Suc_lessD nth_map)+
  then have "clock_of cv (lines ! i) = Some (fst (ds ! i), snd (ds ! i))"
    "clock_of cv (lines ! Suc i) = Some (fst (ds ! i), snd (ds ! Suc i))"
    using i(2) by (metis prod.collapse)+
  then obtain e where e: "time_loop cv time_init lines = Inl e"
    using time_loop_equal_fails [of i lines cv _ _ _ time_init] i(1) len by metis
  then have "time_lines time_init ds = Inl e" using a time_loop_decoded by metis
  then have "e = OverflowError" by (rule time_lines_error)
  then show "read_time_information_from_tracking_data_txt cv lines = Inl OverflowError"
    using e by (simp add: read_time_information_from_tracking_data_txt_def)
next
  assume a: "map (clock_of cv) lines = map Some ds
      \<and> (\<forall>i. Suc i < length ds \<longrightarrow> fst (ds ! Suc i) \<noteq> fst (ds ! i))"
  have tl: "time_loop cv time_init lines = time_lines time_init ds"
    using a time_loop_decoded by blast
  show "\<exists>st. time_loop cv time_init lines = Inr st
           \<and> (2 \<le> length ds \<longrightarrow> framerate_est st \<noteq> None)"
  proof (cases ds)
    case Nil
    then show ?thesis using tl by simp
  next
    case (Cons d0 rest)
    obtain g0 s0 where d0: "d0 = (g0, s0)" by (cases d0)
    obtain st0 where st0: "time_line time_init g0 s0 = Inr st0"
      using time_line_first [of time_init g0 s0] by (auto simp: time_init_def)
    have ll: "last_line st0 = Some d0" using time_line_last [OF st0] d0 by simp
    from time_lines_distinct [of d0 rest st0] a Cons ll obtain st' where
      "time_lines st0 rest = Inr st'" "rest \<noteq> [] \<longrightarrow> framerate_est st' \<noteq> None"
      by blast
    then show ?thesis using tl Cons d0 st0 by (cases rest) auto
  qed
qed

theorem zero_delta_fails_witness:
  "read_time_information_from_tracking_data_txt dec_conv [''0;0,1,0:'', ''0;0,1,0:'']
     = Inl OverflowError
   \<and> (\<exists>st. time_loop dec_conv time_init [''0;0,1,0:'', ''0;40,1,0:''] = Inr st
          \<and> framerate_est st \<noteq> None)"
proof -
  have a: "map (clock_of dec_conv) [''0;0,1,0:'', ''0;0,1,0:''] = map Some [(0, 1), (0, 1)]"
    by code_simp
  have b: "map (clock_of dec_conv) [''0;0,1,0:'', ''0;40,1,0:''] = map Some [(0, 1), (40, 1)]"
    by code_simp
  have a2: "\<exists>i. Suc i < length [(0::int, 1::int), (0, 1)]
      \<and> fst ([(0::int, 1::int), (0, 1)] ! Suc i) = fst ([(0, 1), (0, 1)] ! i)"
    by (rule exI [of _ 0]) simp
  have b2: "\<forall>i. Suc i < length [(0::int, 1::int), (40, 1)]
      \<longrightarrow> fst ([(0::int, 1::int), (40, 1)] ! Suc i) \<noteq> fst ([(0, 1), (40, 1)] ! i)"
    by simp
  show ?thesis
    using zero_delta_fails [where lines = "[''0;0,1,0:'', ''0;0,1,0:'']" and cv = dec_conv
        and ds = "[(0, 1), (0, 1)]"]
      zero_delta_fails [where lines = "[''0;0,1,0:'', ''0;40,1,0:'']" and cv = dec_conv
        and ds = "[(0, 1), (40, 1)]"] a a2 b b2
    by simp
qed







subsection \<open>Assignment of events to the teams\<close>












subsection \<open>The away objects of the open event reader\<close>

lemma open_away_is_home:
  "read_open_event_data_csv cv csv_df lines home_teamsheet away_teamsheet = Inr r \<Longrightarrow>
     oe_away_ht1 r = oe_home_ht1 r \<and> oe_away_ht2 r = oe_home_ht2 r"
  by (auto simp: read_open_event_data_csv_def split: sum.splits prod.splits)

text \<open>
  Claim C1 on a file with one event of each team in each half, both teamsheets given:
  the bins are filled per team (the away bin of the first half holds the away team's
  shot), but the away objects returned hold the home team's events, since lines 283-288
  read \<^verbatim>\<open>events[team_ids["Home"]]\<close> for them.
\<close>

theorem open_away_objects_hold_home_events:
  "map_sum id (map ev_eID)
     (case parse_event_lines dec_conv open_events_init [''0,e1,10,1,12.5,Pass,1,1,p7,1,7,1,0,0,0,0,0,0,0,1'',
        ''0,e2,20,1,14.0,Shot,2,2,p9,2,9,0,0,0,0,0,0,0,0,1'',
        ''0,e3,30,2,3.0,Cross,1,3,p7,1,7,1,0,0,0,0,0,0,0,2'',
        ''0,e4,40,2,4.0,Foul,3,4,p9,2,9,0,0,0,0,0,0,0,0,2''] of
        Inl e \<Rightarrow> Inl e
      | Inr events \<Rightarrow> events_table events (Fl 2) ''1'') = Inr [''Shot'']
   \<and> map_sum id (\<lambda>r. (map ev_eID (oe_home_ht1 r), map ev_eID (oe_home_ht2 r),
                       map ev_eID (oe_away_ht1 r), map ev_eID (oe_away_ht2 r)))
       (read_open_event_data_csv dec_conv [] [''0,e1,10,1,12.5,Pass,1,1,p7,1,7,1,0,0,0,0,0,0,0,1'',
        ''0,e2,20,1,14.0,Shot,2,2,p9,2,9,0,0,0,0,0,0,0,0,1'',
        ''0,e3,30,2,3.0,Cross,1,3,p7,1,7,1,0,0,0,0,0,0,0,2'',
        ''0,e4,40,2,4.0,Foul,3,4,p9,2,9,0,0,0,0,0,0,0,0,2'']
          (Some \<lparr>ts_player = [PStr ''a''], ts_jID = [Fl 7], ts_pID = None, ts_tID = None,
                 ts_xID = None\<rparr>)
          (Some \<lparr>ts_player = [PStr ''b''], ts_jID = [Fl 9], ts_pID = None, ts_tID = None,
                 ts_xID = None\<rparr>))
     = Inr ([''Pass''], [''Cross''], [''Pass''], [''Cross''])"
  by code_simp

subsection \<open>Teamsheets derived from tracking data\<close>

lemma set_pd_unique [simp]: "set (pd_unique xs) = set xs"
  by (induction xs rule: pd_unique.induct) auto

lemma distinct_pd_unique [simp]: "distinct (pd_unique xs)"
  by (induction xs rule: pd_unique.induct) auto






text \<open>
  The txt builder sorts the jersey numbers while they are texts: the jerseys 2 and 10
  are listed as 10, 2.
\<close>

lemma txt_teamsheet_sorts_texts:
  "read_teamsheets_from_tracking_data_txt dec_conv [''0;0,1,0:0,a,2,1.0,1.0;0,b,10,1.0,1.0;1,c,5,1.0,1.0;''] = Inr (\<lparr>ts_player = [PStr ''player 0'', PStr ''player 1''], ts_jID = [Fl 10, Fl 2],
           ts_pID = None, ts_tID = None, ts_xID = None\<rparr>, \<lparr>ts_player = [PStr ''player 0''], ts_jID = [Fl 5], ts_pID = None, ts_tID = None,
           ts_xID = None\<rparr>)"
  by code_simp





subsection \<open>The ball array of the open tracking reader\<close>

lemma length_nd_put_all [simp]:
  "length (nd_rows (nd_put_all a c ps)) = length (nd_rows a)"
  by (induction ps arbitrary: a) (auto simp: nd_put_def)

lemma nd_cols_nd_put_all [simp]: "nd_cols (nd_put_all a c ps) = nd_cols a"
  by (induction ps arbitrary: a) (auto simp: nd_put_def)

lemma nd_put_all_other:
  "r \<notin> fst ` set ps \<Longrightarrow> nd_rows (nd_put_all a c ps) ! r = nd_rows a ! r"
  by (induction ps arbitrary: a) (auto simp: nd_put_def)

lemma nd_put_all_hit:
  "distinct (map fst ps) \<Longrightarrow> (r, v) \<in> set ps \<Longrightarrow> r < length (nd_rows a) \<Longrightarrow>
     nd_rows (nd_put_all a c ps) ! r = (nd_rows a ! r)[c := v]"
proof (induction ps arbitrary: a)
  case Nil
  then show ?case by simp
next
  case (Cons p ps)
  obtain r' v' where p: "p = (r', v')" by (cases p)
  show ?case
  proof (cases "(r, v) = p")
    case True
    then have "r \<notin> fst ` set ps" using Cons.prems(1) p by force
    then show ?thesis
      using True p Cons.prems(3) by (simp add: nd_put_all_other nd_put_def)
  next
    case False
    then have in_ps: "(r, v) \<in> set ps" using Cons.prems(2) by simp
    then have "r \<noteq> r'" using Cons.prems(1) p by force
    then show ?thesis
      using Cons.IH [of "nd_put a r' c v'"] Cons.prems in_ps p
      by (simp add: nd_put_def)
  qed
qed

lemma py_slice_bound_0 [simp]: "py_slice_bound n 0 = 0"
  by (simp add: py_slice_bound_def)

lemma py_slice_bound_n [simp]: "py_slice_bound n (int n) = n"
  by (simp add: py_slice_bound_def)

lemma np_assign_rows_full:
  assumes "np_assign_rows a 0 (int (length (nd_rows a))) col vals = Inr a'"
    and "py_index (nd_cols a) col = Inr c"
  shows "length (nd_rows a') = length (nd_rows a) \<and> nd_cols a' = nd_cols a
     \<and> (\<forall>r < length (nd_rows a).
           nd_rows a' ! r = (nd_rows a ! r)[c := broadcast (length (nd_rows a)) vals ! r])"
proof -
  let ?n = "length (nd_rows a)"
  show ?thesis
  proof (cases "length vals = ?n")
    case True
    then have a': "a' = nd_put_all a c (zip [0..<?n] vals)"
      using assms by (simp add: np_assign_rows_def Let_def)
    have "\<forall>r < ?n. nd_rows a' ! r = (nd_rows a ! r)[c := vals ! r]"
    proof (intro allI impI)
      fix r assume r: "r < ?n"
      have "(r, vals ! r) \<in> set (zip [0..<?n] vals)"
        using r True by (auto simp: set_zip intro!: exI [of _ r])
      moreover have "distinct (map fst (zip [0..<?n] vals))"
        using True by simp
      ultimately show "nd_rows a' ! r = (nd_rows a ! r)[c := vals ! r]"
        unfolding a' using r by (intro nd_put_all_hit) auto
    qed
    then show ?thesis using True by (simp add: a' broadcast_def)
  next
    case False
    then have one: "length vals = 1"
      using assms by (auto simp: np_assign_rows_def Let_def split: if_splits)
    then have a': "a' = nd_put_all a c (map (\<lambda>r. (r, hd vals)) [0..<?n])"
      using assms False by (simp add: np_assign_rows_def Let_def)
    have "\<forall>r < ?n. nd_rows a' ! r = (nd_rows a ! r)[c := hd vals]"
    proof (intro allI impI)
      fix r assume r: "r < ?n"
      have "(r, hd vals) \<in> set (map (\<lambda>r. (r, hd vals)) [0..<?n])"
        using r by auto
      moreover have "distinct (map fst (map (\<lambda>r. (r, hd vals)) [0..<?n]))"
        by (simp add: comp_def)
      ultimately show "nd_rows a' ! r = (nd_rows a ! r)[c := hd vals]"
        unfolding a' using r by (intro nd_put_all_hit) auto
    qed
    then show ?thesis using False by (simp add: a' broadcast_def)
  qed
qed


lemma pair_row: "length row = 2 \<Longrightarrow> (row[0 := v])[Suc 0 := w] = [v, w]"
  by (cases row; cases "tl row") auto

lemma open_ball_rows:
  assumes "open_ball dat_df period b = Inr (b', codes)"
    and "nd_cols b = 2" and "\<forall>row \<in> set (nd_rows b). length row = 2"
  shows "nd_rows b' = map (\<lambda>x. [x, x])
           (broadcast (length (nd_rows b)) (map pos_x (ball_appearing dat_df period)))"
proof -
  let ?n = "length (nd_rows b)"
  let ?vals = "map pos_x (ball_appearing dat_df period)"
  from assms(1) obtain b1 where
    b1: "np_assign_rows b 0 (int ?n) 0 ?vals = Inr b1"
    and b2: "np_assign_rows b1 0 (int ?n) 1 ?vals = Inr b'"
    by (auto simp: open_ball_def Let_def split: sum.splits)
  have i0: "py_index (nd_cols b) 0 = Inr 0" and i1: "py_index 2 1 = Inr 1"
    using assms(2) by (simp_all add: py_index_def)
  note f1 = np_assign_rows_full [OF b1 i0]
  have n1: "length (nd_rows b1) = ?n" and c1: "nd_cols b1 = 2"
    using f1 assms(2) by simp_all
  have b2': "np_assign_rows b1 0 (int (length (nd_rows b1))) 1 ?vals = Inr b'"
    using b2 n1 by simp
  have i1': "py_index (nd_cols b1) 1 = Inr 1" using i1 c1 by simp
  note f2 = np_assign_rows_full [OF b2' i1']
  have len: "length (nd_rows b') = ?n" using f2 n1 by simp
  have bl: "length (broadcast ?n ?vals) = ?n" by (simp add: broadcast_def)
  show ?thesis
  proof (rule nth_equalityI)
    show "length (nd_rows b') = length (map (\<lambda>x. [x, x]) (broadcast ?n ?vals))"
      using len bl by simp
  next
    fix r assume "r < length (nd_rows b')"
    then have r: "r < ?n" using len by simp
    have row: "length (nd_rows b ! r) = 2" using assms(3) r by simp
    have "nd_rows b' ! r = ((nd_rows b ! r)[0 := broadcast ?n ?vals ! r])[1 := broadcast ?n ?vals ! r]"
      using f1 f2 r n1 by simp
    also have "\<dots> = [broadcast ?n ?vals ! r, broadcast ?n ?vals ! r]"
      using pair_row [OF row] by simp
    finally show "nd_rows b' ! r = map (\<lambda>x. [x, x]) (broadcast ?n ?vals) ! r"
      using r bl by simp
  qed
qed

lemma for_each_Inr:
  "for_each f xs = Inr ys \<Longrightarrow>
     length ys = length xs \<and> (\<forall>i < length xs. f (xs ! i) = Inr (ys ! i))"
proof (induction xs arbitrary: ys)
  case Nil
  then show ?case by simp
next
  case (Cons x xs)
  from Cons.prems obtain y ys' where y: "f x = Inr y" and r: "for_each f xs = Inr ys'"
    and ys: "ys = y # ys'"
    by (auto split: sum.splits)
  from Cons.IH [OF r] show ?case
    using y ys by (auto simp: nth_Cons')
qed

lemma create_periods_keys:
  "create_periods fv = Inr periods \<Longrightarrow> map fst periods = [0..<length periods]"
  by (auto simp: create_periods_def Let_def comp_def split: if_splits)

lemma dict_get_zip_upt:
  assumes "dict_get (zip [0..<n] ys) k = Inr y" and "length ys = n"
  shows "k < n \<and> y = ys ! k"
proof -
  from assms(1) have m: "map_of (zip [0..<n] ys) k = Some y"
    by (simp add: dict_get_def split: option.splits)
  then have "(k, y) \<in> set (zip [0..<n] ys)" by (rule map_of_SomeD)
  then show ?thesis using assms(2) by (auto simp: set_zip)
qed

lemma open_alloc_ball:
  "open_alloc nh na period = Inr bins \<Longrightarrow>
     nd_cols (sb_ball bins) = 2 \<and> nd_rows (sb_ball bins) = replicate (frames_of period) [NaN, NaN]"
  by (auto simp: open_alloc_def np_full_def Let_def frames_of_def numeral_2_eq_2
           split: sum.splits if_splits)

lemma open_segment_ball:
  assumes "open_alloc nh na period = Inr bins"
    and "open_segment lh la dat_df period bins = Inr bins'"
  shows "nd_rows (sb_ball bins') = map (\<lambda>x. [x, x])
           (broadcast (frames_of period) (map pos_x (ball_appearing dat_df period)))"
proof -
  from assms(2) obtain b codes where
    ob: "open_ball dat_df period (sb_ball bins) = Inr (b, codes)" and b: "sb_ball bins' = b"
    by (auto simp: open_segment_def split: sum.splits)
  note al = open_alloc_ball [OF assms(1)]
  have "nd_rows b = map (\<lambda>x. [x, x])
           (broadcast (length (nd_rows (sb_ball bins))) (map pos_x (ball_appearing dat_df period)))"
    using al by (intro open_ball_rows [OF ob]) auto
  then show ?thesis using al b by simp
qed

lemma read_open_tracking_ball:
  assumes "read_open_tracking_data_csv xid_base dat_df home_teamsheet away_teamsheet = Inr r"
  shows "\<exists>periods pitch. create_metadata_from_open_csv_df dat_df = Inr (periods, pitch)
     \<and> 1 < length periods
     \<and> nd_rows (ot_ball_ht1 r) = map (\<lambda>x. [x, x])
          (broadcast (frames_of (snd (periods ! 0)))
             (map pos_x (ball_appearing dat_df (snd (periods ! 0)))))
     \<and> nd_rows (ot_ball_ht2 r) = map (\<lambda>x. [x, x])
          (broadcast (frames_of (snd (periods ! 1)))
             (map pos_x (ball_appearing dat_df (snd (periods ! 1)))))"
proof -
  from assms obtain hts ats periods pitch allocated filled ht1 ht2 where
    md: "create_metadata_from_open_csv_df dat_df = Inr (periods, pitch)"
    and al: "for_each (\<lambda>(segment, period).
                open_alloc (int (length (get_links_jID_xID (ensure_xIDs xid_base hts))))
                  (int (length (get_links_jID_xID (ensure_xIDs xid_base ats)))) period)
              periods = Inr allocated"
    and fi: "for_each (\<lambda>((segment, period), bins).
                open_segment (get_links_jID_xID (ensure_xIDs xid_base hts))
                  (get_links_jID_xID (ensure_xIDs xid_base ats)) dat_df period bins)
              (zip periods allocated) = Inr filled"
    and g1: "dict_get (zip (map fst periods) filled) 0 = Inr ht1"
    and g2: "dict_get (zip (map fst periods) filled) 1 = Inr ht2"
    and r1: "ot_ball_ht1 r = sb_ball ht1" and r2: "ot_ball_ht2 r = sb_ball ht2"
    by (auto simp: read_open_tracking_data_csv_def Let_def split: sum.splits prod.splits)
  have keys: "map fst periods = [0..<length periods]"
    using md by (auto simp: create_metadata_from_open_csv_df_def create_periods_keys
        split: list.splits sum.splits)
  note A = for_each_Inr [OF al]
  note F = for_each_Inr [OF fi]
  have lf: "length filled = length periods" using A F by simp
  have k1: "0 < length periods \<and> ht1 = filled ! 0"
    using dict_get_zip_upt [of "length periods" filled 0 ht1] g1 keys lf by simp
  have k2: "1 < length periods \<and> ht2 = filled ! 1"
    using dict_get_zip_upt [of "length periods" filled 1 ht2] g2 keys lf by simp
  have seg: "nd_rows (sb_ball (filled ! i)) = map (\<lambda>x. [x, x])
          (broadcast (frames_of (snd (periods ! i)))
             (map pos_x (ball_appearing dat_df (snd (periods ! i)))))"
    if i: "i < length periods" for i
  proof -
    obtain sg pd where p: "periods ! i = (sg, pd)" by (cases "periods ! i")
    have a: "open_alloc (int (length (get_links_jID_xID (ensure_xIDs xid_base hts))))
                  (int (length (get_links_jID_xID (ensure_xIDs xid_base ats)))) pd
               = Inr (allocated ! i)"
      using A i p by auto
    have "zip periods allocated ! i = ((sg, pd), allocated ! i)"
      using A i p by simp
    then have s: "open_segment (get_links_jID_xID (ensure_xIDs xid_base hts))
                  (get_links_jID_xID (ensure_xIDs xid_base ats)) dat_df pd (allocated ! i)
               = Inr (filled ! i)"
      using F i A by (metis (no_types, lifting) case_prod_conv length_zip min.idem)
    show ?thesis using open_segment_ball [OF a s] p by simp
  qed
  show ?thesis
    using md k1 k2 seg [of 0] seg [of 1] r1 r2 by auto
qed


text \<open>
  Claim C2. In the open-format tracking reader both columns of the ball array are
  written from the column \<open>pos_x\<close> of the ball rows of the segment: whenever the reader
  returns, each returned ball array is, row by row, the pair \<open>[x, x]\<close> of the \<open>pos_x\<close>
  value of the frame, so the stored ball y equals the stored ball x in every row.
\<close>

theorem open_ball_y_equals_x:
  assumes "read_open_tracking_data_csv xid_base dat_df home_teamsheet away_teamsheet = Inr r"
  shows "(\<exists>periods pitch. create_metadata_from_open_csv_df dat_df = Inr (periods, pitch)
       \<and> 1 < length periods
       \<and> nd_rows (ot_ball_ht1 r) = map (\<lambda>x. [x, x])
            (broadcast (frames_of (snd (periods ! 0)))
               (map pos_x (ball_appearing dat_df (snd (periods ! 0)))))
       \<and> nd_rows (ot_ball_ht2 r) = map (\<lambda>x. [x, x])
            (broadcast (frames_of (snd (periods ! 1)))
               (map pos_x (ball_appearing dat_df (snd (periods ! 1))))))
    \<and> (\<forall>row \<in> set (nd_rows (ot_ball_ht1 r)) \<union> set (nd_rows (ot_ball_ht2 r)).
          length row = 2 \<and> row ! 1 = row ! 0)"
proof -
  from read_open_tracking_ball [OF assms] obtain periods pitch where
    P: "create_metadata_from_open_csv_df dat_df = Inr (periods, pitch)"
      "1 < length periods"
      "nd_rows (ot_ball_ht1 r) = map (\<lambda>x. [x, x])
            (broadcast (frames_of (snd (periods ! 0)))
               (map pos_x (ball_appearing dat_df (snd (periods ! 0)))))"
      "nd_rows (ot_ball_ht2 r) = map (\<lambda>x. [x, x])
            (broadcast (frames_of (snd (periods ! 1)))
               (map pos_x (ball_appearing dat_df (snd (periods ! 1)))))"
    by blast
  have "\<forall>row \<in> set (nd_rows (ot_ball_ht1 r)) \<union> set (nd_rows (ot_ball_ht2 r)).
          length row = 2 \<and> row ! 1 = row ! 0"
    unfolding P(3,4) by auto
  then show ?thesis using P by blast
qed

theorem open_ball_y_equals_x_witness:
  "\<exists>r. read_open_tracking_data_csv 1 example_open_rows None None = Inr r
     \<and> nd_rows (ot_ball_ht1 r) = [[Fl 5, Fl 5], [Fl 15, Fl 15]]
     \<and> nd_rows (ot_ball_ht2 r) = [[Fl 25, Fl 25], [Fl 35, Fl 35]]
     \<and> (\<exists>periods pitch. create_metadata_from_open_csv_df example_open_rows = Inr (periods, pitch)
          \<and> nd_rows (ot_ball_ht1 r) = map (\<lambda>x. [x, x])
              (broadcast (frames_of (snd (periods ! 0)))
                 (map pos_x (ball_appearing example_open_rows (snd (periods ! 0))))))"
proof -
  have e: "map_sum id (\<lambda>r. (nd_rows (ot_ball_ht1 r), nd_rows (ot_ball_ht2 r)))
             (read_open_tracking_data_csv 1 example_open_rows None None)
           = Inr ([[Fl 5, Fl 5], [Fl 15, Fl 15]], [[Fl 25, Fl 25], [Fl 35, Fl 35]])"
    by code_simp
  then obtain r where r: "read_open_tracking_data_csv 1 example_open_rows None None = Inr r"
    by (cases "read_open_tracking_data_csv 1 example_open_rows None None") auto
  have v: "nd_rows (ot_ball_ht1 r) = [[Fl 5, Fl 5], [Fl 15, Fl 15]]"
    "nd_rows (ot_ball_ht2 r) = [[Fl 25, Fl 25], [Fl 35, Fl 35]]"
    using e r by simp_all
  from open_ball_y_equals_x [OF r] obtain periods pitch where
    "create_metadata_from_open_csv_df example_open_rows = Inr (periods, pitch)"
    "nd_rows (ot_ball_ht1 r) = map (\<lambda>x. [x, x])
              (broadcast (frames_of (snd (periods ! 0)))
                 (map pos_x (ball_appearing example_open_rows (snd (periods ! 0)))))"
    by blast
  then show ?thesis using r v by blast
qed

subsection \<open>The ball array of the txt reader\<close>





















subsection \<open>The shape of the team arrays of the txt reader\<close>

text \<open>
  Claim C3 on the example file, no teamsheet given. The home roster has the two jerseys
  7 and 8. With indices from 1 the home array has six columns, not four: line 1058
  sizes it by \<^verbatim>\<open>max(xID) + 1\<close> players while lines 1112-1113 place the index
  \<open>xID\<close> at the columns \<open>2 (xID - 1)\<close> and \<open>2 (xID - 1) + 1\<close>. With indices from 0 the
  array has four columns, and the position of jersey 7 (index 0) is stored at the
  columns 2 and 3, reached through the negative column index -2: in the first frame,
  where jersey 8 (index 1) is absent, these cells hold a position and the columns 0 and
  1 are not-a-number.
\<close>

theorem txt_home_array_columns:
  "map_sum id (\<lambda>r. (nd_cols (tt_home_ht1 r), ts_jID (tt_home_teamsheet r),
                     ts_xID (tt_home_teamsheet r), nd_rows (tt_home_ht1 r)))
     (read_tracking_data_txt dec_conv exact_frame_index 1 example_txt_lines None None)
     = Inr (6, [Fl 7, Fl 8], Some [1, 2],
            [[Fl 1, Fl 2, NaN, NaN, NaN, NaN], [Fl (3 / 2), Fl (5 / 2), Fl 3, Fl 4, NaN, NaN]])
   \<and> map_sum id (\<lambda>r. (nd_cols (tt_home_ht1 r), ts_jID (tt_home_teamsheet r),
                     ts_xID (tt_home_teamsheet r), nd_rows (tt_home_ht1 r)))
     (read_tracking_data_txt dec_conv exact_frame_index 0 example_txt_lines None None)
     = Inr (4, [Fl 7, Fl 8], Some [0, 1],
            [[NaN, NaN, Fl 1, Fl 2], [Fl 3, Fl 4, Fl (3 / 2), Fl (5 / 2)]])"
  by code_simp

end
